theory Spec2Isabelle
  imports Complex_Main
begin

section \<open>The three-component self-consistent model driver\<close>

text \<open>
  This theory embeds \<^verbatim>\<open>pytests/example_self_consistent_model3.py\<close>: the functions
  \<^verbatim>\<open>writeRotationCurve\<close> and \<^verbatim>\<open>printoutInfo\<close> and the main script. The script drives
  the \<^verbatim>\<open>agama\<close> library, which is not part of the file. The library's constructors and
  solvers are therefore parameters of the model (the record \<open>agama\<close> below), over abstract
  types \<open>'d\<close> of density objects, \<open>'p\<close> of potential objects and \<open>'f\<close> of distribution
  functions. Everything proved about the script holds for every library.
\<close>

subsection \<open>Configuration, errors, components\<close>

text \<open>
  \<^verbatim>\<open>dict(ini.items(section))\<close> is a dictionary of option names and values, both strings;
  the parsed INI file is a list of named sections. A file that does not exist is read
  as no section at all (\<^verbatim>\<open>RawConfigParser.read\<close> skips it silently).
\<close>

type_synonym kwargs = "(string \<times> string) list"

type_synonym inifile = "(string \<times> kwargs) list"

datatype error =
    NoSectionError string
  | KeyError string
  | ValueError string
  | IndexError
  | AttributeError
  | IOError string
  | ConfigurationError
  | InversionError
  | SolveError

text \<open>
  \<^verbatim>\<open>agama.Component(density=d, disklike=b)\<close> is \<open>StaticDensity d b\<close>;
  \<^verbatim>\<open>agama.Component(df=f, disklike=b, **kw)\<close> is \<open>DFBased f b kw\<close>.
\<close>

datatype ('d, 'f) component =
    StaticDensity 'd bool
  | DFBased 'f bool kwargs

fun disklike :: "('d, 'f) component \<Rightarrow> bool" where
  "disklike (StaticDensity d b) = b"
| "disklike (DFBased f b kw) = b"

fun is_static :: "('d, 'f) component \<Rightarrow> bool" where
  "is_static (StaticDensity d b) = True"
| "is_static (DFBased f b kw) = False"

fun is_df_based :: "('d, 'f) component \<Rightarrow> bool" where
  "is_df_based (StaticDensity d b) = False"
| "is_df_based (DFBased f b kw) = True"

subsection \<open>File contents\<close>

text \<open>
  What a file holds is recorded by the call that wrote it and the objects it was
  written from; the byte format belongs to the library and to numpy.
\<close>

datatype ('d, 'p, 'f) content =
    PotentialCoefs 'p
  | RotationCurve 'p
  | DensityCoefs 'd
  | DiskPlane 'p 'f real
  | DensitySample 'd nat string
  | ModelSample "'p option" 'f nat string

subsection \<open>The library interface\<close>

text \<open>
  The calls the script makes into \<^verbatim>\<open>agama\<close> and Python's \<^verbatim>\<open>float\<close>. A constructor
  returns the object or raises (a check returns the error raised, if any);
  \<open>Multipole p lmax gridsizer rmin rmax\<close> is
  \<^verbatim>\<open>agama.Potential(type='Multipole', density=p, lmax=.., gridsizer=.., rmin=.., rmax=..)\<close>
  and \<open>PseudoIsotropic p d\<close> is
  \<^verbatim>\<open>agama.DistributionFunction(type='PseudoIsotropic', potential=p, density=d)\<close>.
  \<open>density_from_df\<close> and \<open>PotentialSolver\<close> are the two collaborators of
  \<^verbatim>\<open>iterate()\<close>. \<open>write_error name c\<close> is the error raised, if any, when the
  content \<open>c\<close> is written to the file \<open>name\<close>, by an \<^verbatim>\<open>export\<close> method,
  \<^verbatim>\<open>agama.writeSnapshot\<close> or \<^verbatim>\<open>numpy.savetxt\<close>: a name that cannot be opened for writing
  raises.
\<close>

record ('d, 'p, 'f) agama =
  SelfConsistentModel :: "kwargs \<Rightarrow> error option"
  Density :: "kwargs \<Rightarrow> error + 'd"
  Component :: "('d, 'f) component \<Rightarrow> error option"
  DistributionFunction :: "'p option \<Rightarrow> kwargs \<Rightarrow> error + 'f"
  Multipole :: "'p option \<Rightarrow> nat \<Rightarrow> nat \<Rightarrow> real \<Rightarrow> real \<Rightarrow> error + 'p"
  PseudoIsotropic :: "'p \<Rightarrow> 'd \<Rightarrow> error + 'f"
  density_from_df :: "'f \<Rightarrow> bool \<Rightarrow> kwargs \<Rightarrow> 'p option \<Rightarrow> 'd"
  PotentialSolver :: "kwargs \<Rightarrow> 'd list \<Rightarrow> 'p option"
  float_of :: "string \<Rightarrow> real option"
  write_error :: "string \<Rightarrow> ('d, 'p, 'f) content \<Rightarrow> error option"

subsection \<open>The model object, the files and the log of calls\<close>

record ('d, 'p, 'f) scm =
  params :: kwargs
  components :: "('d, 'f) component list"
  potential :: "'p option"

datatype ('d, 'p, 'f) message =
    Banner string
  | MassesFromDF 'f 'f 'f
  | StartingIteration nat
  | DiskInfo 'd
  | BulgeInfo 'd
  | HaloInfo 'd
  | PotentialInfo 'p

text \<open>
  The log lists, in program order, the calls the script makes and the values they
  returned. \<open>CallIterate cs\<close> is logged when \<^verbatim>\<open>model.iterate()\<close> is entered, with the
  component list \<open>cs\<close> of that moment; \<open>ReturnIterate p\<close> when it has returned, with
  \<^verbatim>\<open>model.potential\<close> as it then is. Where the script passes \<^verbatim>\<open>model.potential\<close> to
  the library, the argument is that field's value, which is \<^verbatim>\<open>None\<close> before the first
  iteration.
\<close>

datatype ('d, 'p, 'f) event =
    NewSelfConsistentModel kwargs
  | NewDensity kwargs 'd
  | Append "('d, 'f) component"
  | CallIterate "('d, 'f) component list"
  | ReturnIterate "'p option"
  | NewDistributionFunction "'p option" kwargs 'f
  | NewMultipole "'p option" nat nat real real 'p
  | NewPseudoIsotropic 'p 'd 'f
  | Replace nat "('d, 'f) component"
  | CallPrintoutInfo nat
  | NewGalaxyModel "'p option" 'f
  | Write string "('d, 'p, 'f) content"
  | Print "('d, 'p, 'f) message"

record ('d, 'p, 'f) world = "('d, 'p, 'f) scm" +
  files :: "string \<rightharpoonup> ('d, 'p, 'f) content"
  trace :: "('d, 'p, 'f) event list"

subsection \<open>Statements that may raise\<close>

text \<open>
  A statement either completes with a value or raises; both outcomes carry the state
  reached, since an exception leaves the objects as they were when it was raised.
\<close>

datatype ('a, 's) outcome = Ok 'a 's | Raised error 's

fun succeeded :: "('a, 's) outcome \<Rightarrow> bool" where
  "succeeded (Ok a s) = True"
| "succeeded (Raised e s) = False"

fun final :: "('a, 's) outcome \<Rightarrow> 's" where
  "final (Ok a s) = s"
| "final (Raised e s) = s"

definition andThen ::
  "('s \<Rightarrow> ('a, 's) outcome) \<Rightarrow> ('a \<Rightarrow> 's \<Rightarrow> ('b, 's) outcome) \<Rightarrow> 's \<Rightarrow> ('b, 's) outcome" where
  "andThen m f s = (case m s of Ok a s' \<Rightarrow> f a s' | Raised e s' \<Rightarrow> Raised e s')"

definition call :: "error + 'a \<Rightarrow> 's \<Rightarrow> ('a, 's) outcome" where
  "call r s = (case r of Inl e \<Rightarrow> Raised e s | Inr a \<Rightarrow> Ok a s)"

definition check :: "error option \<Rightarrow> 's \<Rightarrow> (unit, 's) outcome" where
  "check r s = (case r of Some e \<Rightarrow> Raised e s | None \<Rightarrow> Ok () s)"

definition emit ::
  "('d, 'p, 'f) event \<Rightarrow> ('d, 'p, 'f) world \<Rightarrow> (unit, ('d, 'p, 'f) world) outcome" where
  "emit e w = Ok () (w\<lparr>trace := trace w @ [e]\<rparr>)"

definition write_file ::
  "('d, 'p, 'f) agama \<Rightarrow> string \<Rightarrow> ('d, 'p, 'f) content \<Rightarrow> ('d, 'p, 'f) world \<Rightarrow>
     (unit, ('d, 'p, 'f) world) outcome" where
  "write_file lib name c w =
     (case write_error lib name c of
        Some e \<Rightarrow> Raised e w
      | None \<Rightarrow>
          Ok () (w\<lparr>files := (files w)(name \<mapsto> c), trace := trace w @ [Write name c]\<rparr>))"

text \<open>\<^verbatim>\<open>model.potential\<close> used as an object: \<^verbatim>\<open>None\<close> has no methods.\<close>

definition model_potential ::
  "('d, 'p, 'f) world \<Rightarrow> ('p, ('d, 'p, 'f) world) outcome" where
  "model_potential w =
     (case potential w of None \<Rightarrow> Raised AttributeError w | Some p \<Rightarrow> Ok p w)"

text \<open>\<^verbatim>\<open>model.components[i]\<close>, read and assigned: out of range raises.\<close>

definition component_at ::
  "nat \<Rightarrow> ('d, 'p, 'f) world \<Rightarrow> (('d, 'f) component, ('d, 'p, 'f) world) outcome" where
  "component_at i w =
     (if i < length (components w) then Ok (components w ! i) w else Raised IndexError w)"

definition set_component ::
  "nat \<Rightarrow> ('d, 'f) component \<Rightarrow> ('d, 'p, 'f) world \<Rightarrow> (unit, ('d, 'p, 'f) world) outcome" where
  "set_component i c w =
     (if i < length (components w)
      then Ok () (w\<lparr>components := (components w)[i := c], trace := trace w @ [Replace i c]\<rparr>)
      else Raised IndexError w)"

definition append_component ::
  "('d, 'f) component \<Rightarrow> ('d, 'p, 'f) world \<Rightarrow> (unit, ('d, 'p, 'f) world) outcome" where
  "append_component c w =
     Ok () (w\<lparr>components := components w @ [c], trace := trace w @ [Append c]\<rparr>)"

definition ret :: "'a \<Rightarrow> 's \<Rightarrow> ('a, 's) outcome" where
  "ret a s = Ok a s"

subsection \<open>The library's iteration\<close>

text \<open>
  Modelled from the spec: \<^verbatim>\<open>Component.getDensity()\<close> and
  \<^verbatim>\<open>SelfConsistentModel.iterate()\<close> belong to the \<^verbatim>\<open>agama\<close> library, whose code is not
  in the file. A component's density contribution is a static lookup or the integration
  of its DF in the model's potential. One iteration computes the contribution of every
  component, in the order of the list, in the potential as of the start of the iteration,
  hands them to the potential solver and stores the new potential as the model's current
  one; it changes nothing else. When the solver cannot produce a potential the call
  raises \<open>SolveError\<close>.
\<close>

definition getDensity ::
  "('d, 'p, 'f) agama \<Rightarrow> 'p option \<Rightarrow> ('d, 'f) component \<Rightarrow> 'd" where
  "getDensity lib pot c =
     (case c of StaticDensity d b \<Rightarrow> d | DFBased f b kw \<Rightarrow> density_from_df lib f b kw pot)"

definition iterate ::
  "('d, 'p, 'f) agama \<Rightarrow> ('d, 'p, 'f, 'z) scm_scheme \<Rightarrow>
     (unit, ('d, 'p, 'f, 'z) scm_scheme) outcome" where
  "iterate lib m =
     (case PotentialSolver lib (params m)
             (map (getDensity lib (potential m)) (components m)) of
        None \<Rightarrow> Raised SolveError m
      | Some p \<Rightarrow> Ok () (m\<lparr>potential := Some p\<rparr>))"

text \<open>The statement \<^verbatim>\<open>model.iterate()\<close> of the script, with its two log entries.\<close>

definition model_iterate ::
  "('d, 'p, 'f) agama \<Rightarrow> ('d, 'p, 'f) world \<Rightarrow> (unit, ('d, 'p, 'f) world) outcome" where
  "model_iterate lib =
     andThen (\<lambda>w. emit (CallIterate (components w)) w) (\<lambda>_.
     andThen (iterate lib) (\<lambda>_ w.
     emit (ReturnIterate (potential w)) w))"

subsection \<open>The script's functions\<close>

text \<open>
  \<^verbatim>\<open>writeRotationCurve(filename, potential)\<close>: \<^verbatim>\<open>potential.export(filename)\<close>, then the
  table of radii and circular velocities computed from the potential's force, which
  \<^verbatim>\<open>numpy.savetxt(filename, ...)\<close> writes to the same file name (opening it for writing,
  which truncates it). Either write raises when the file cannot be written.
\<close>

definition writeRotationCurve ::
  "('d, 'p, 'f) agama \<Rightarrow> string \<Rightarrow> 'p option \<Rightarrow> ('d, 'p, 'f) world \<Rightarrow>
     (unit, ('d, 'p, 'f) world) outcome" where
  "writeRotationCurve lib filename pot =
     (case pot of
        None \<Rightarrow> Raised AttributeError
      | Some p \<Rightarrow>
          andThen (write_file lib filename (PotentialCoefs p)) (\<lambda>_.
          write_file lib filename (RotationCurve p)))"

text \<open>\<^verbatim>\<open>str(n)\<close> for a non-negative integer.\<close>

definition digit :: "nat \<Rightarrow> char" where
  "digit n = ''0123456789'' ! (n mod 10)"

function str :: "nat \<Rightarrow> string" where
  "str n = (if n < 10 then [digit n] else str (n div 10) @ [digit n])"
  by pat_completeness auto
termination
  by (relation "measure id") auto

declare str.simps [simp del]

text \<open>\<^verbatim>\<open>model.components[i].getDensity()\<close>.\<close>

definition component_density ::
  "('d, 'p, 'f) agama \<Rightarrow> nat \<Rightarrow> ('d, 'p, 'f) world \<Rightarrow> ('d, ('d, 'p, 'f) world) outcome" where
  "component_density lib i =
     andThen (component_at i) (\<lambda>c w. Ok (getDensity lib (potential w) c) w)"

definition printoutInfo ::
  "('d, 'p, 'f) agama \<Rightarrow> nat \<Rightarrow> ('d, 'p, 'f) world \<Rightarrow> (unit, ('d, 'p, 'f) world) outcome" where
  "printoutInfo lib iteration =
     andThen (emit (CallPrintoutInfo iteration)) (\<lambda>_.
     andThen (component_density lib 0) (\<lambda>densDisk.
     andThen (component_density lib 1) (\<lambda>densBulge.
     andThen (component_density lib 2) (\<lambda>densHalo.
     andThen (emit (Print (DiskInfo densDisk))) (\<lambda>_.
     andThen (emit (Print (BulgeInfo densBulge))) (\<lambda>_.
     andThen (emit (Print (HaloInfo densHalo))) (\<lambda>_.
     andThen model_potential (\<lambda>p.
     andThen (emit (Print (PotentialInfo p))) (\<lambda>_.
     andThen (write_file lib (''dens_disk_iter'' @ str iteration) (DensityCoefs densDisk)) (\<lambda>_.
     andThen (write_file lib (''dens_bulge_iter'' @ str iteration) (DensityCoefs densBulge)) (\<lambda>_.
     andThen (write_file lib (''dens_halo_iter'' @ str iteration) (DensityCoefs densHalo)) (\<lambda>_ w.
     writeRotationCurve lib (''rotcurve_iter'' @ str iteration) (potential w) w))))))))))))"

subsection \<open>The main script\<close>

text \<open>Lines 52 to 62: the eight sections of the INI file, read in this order.\<close>

record config =
  iniPotenHalo :: kwargs
  iniPotenBulge :: kwargs
  iniPotenDisk :: kwargs
  iniDFDisk :: kwargs
  iniSCMHalo :: kwargs
  iniSCMBulge :: kwargs
  iniSCMDisk :: kwargs
  iniSCM :: kwargs

definition items :: "inifile \<Rightarrow> string \<Rightarrow> error + kwargs" where
  "items ini section =
     (case map_of ini section of None \<Rightarrow> Inl (NoSectionError section) | Some kw \<Rightarrow> Inr kw)"

definition read_config :: "inifile \<Rightarrow> 's \<Rightarrow> (config, 's) outcome" where
  "read_config ini =
     andThen (call (items ini ''Potential halo'')) (\<lambda>h.
     andThen (call (items ini ''Potential bulge'')) (\<lambda>b.
     andThen (call (items ini ''Potential disk'')) (\<lambda>d.
     andThen (call (items ini ''DF disk'')) (\<lambda>dfd.
     andThen (call (items ini ''SelfConsistentModel halo'')) (\<lambda>sh.
     andThen (call (items ini ''SelfConsistentModel bulge'')) (\<lambda>sb.
     andThen (call (items ini ''SelfConsistentModel disk'')) (\<lambda>sd.
     andThen (call (items ini ''SelfConsistentModel'')) (\<lambda>s.
     ret \<lparr>iniPotenHalo = h, iniPotenBulge = b, iniPotenDisk = d, iniDFDisk = dfd,
          iniSCMHalo = sh, iniSCMBulge = sb, iniSCMDisk = sd, iniSCM = s\<rparr>))))))))"

text \<open>
  Modelled from the spec: the constructor \<^verbatim>\<open>agama.SelfConsistentModel(**kw)\<close> is in the
  library. It checks its parameters and gives a model that holds them, with no component
  (components are created by the driver before the first iteration) and no potential
  (the potential is recomputed by each iteration).
\<close>

definition new_model ::
  "('d, 'p, 'f) agama \<Rightarrow> kwargs \<Rightarrow> ('d, 'p, 'f) world \<Rightarrow> (unit, ('d, 'p, 'f) world) outcome" where
  "new_model lib kw =
     andThen (check (SelfConsistentModel lib kw)) (\<lambda>_ w.
     emit (NewSelfConsistentModel kw) (w\<lparr>params := kw, components := [], potential := None\<rparr>))"

text \<open>
  Lines 65 to 75: the model object, the three density profiles and the three static
  components, appended in the order disk, bulge, halo.
\<close>

definition new_density ::
  "('d, 'p, 'f) agama \<Rightarrow> kwargs \<Rightarrow> ('d, 'p, 'f) world \<Rightarrow> ('d, ('d, 'p, 'f) world) outcome" where
  "new_density lib kw =
     andThen (call (Density lib kw)) (\<lambda>d.
     andThen (emit (NewDensity kw d)) (\<lambda>_.
     ret d))"

definition new_component ::
  "('d, 'p, 'f) agama \<Rightarrow> ('d, 'f) component \<Rightarrow> 's \<Rightarrow> (('d, 'f) component, 's) outcome" where
  "new_component lib c =
     andThen (check (Component lib c)) (\<lambda>_.
     ret c)"

definition create_model ::
  "('d, 'p, 'f) agama \<Rightarrow> config \<Rightarrow> ('d, 'p, 'f) world \<Rightarrow>
     ('d \<times> 'd \<times> 'd, ('d, 'p, 'f) world) outcome" where
  "create_model lib cfg =
     andThen (new_model lib (iniSCM cfg)) (\<lambda>_.
     andThen (new_density lib (iniPotenDisk cfg)) (\<lambda>densityDisk.
     andThen (new_density lib (iniPotenBulge cfg)) (\<lambda>densityBulge.
     andThen (new_density lib (iniPotenHalo cfg)) (\<lambda>densityHalo.
     andThen (new_component lib (StaticDensity densityDisk True)) (\<lambda>c.
     andThen (append_component c) (\<lambda>_.
     andThen (new_component lib (StaticDensity densityBulge False)) (\<lambda>c.
     andThen (append_component c) (\<lambda>_.
     andThen (new_component lib (StaticDensity densityHalo False)) (\<lambda>c.
     andThen (append_component c) (\<lambda>_.
     ret (densityDisk, densityBulge, densityHalo)))))))))))"

text \<open>Lines 78 and 79: the initial potential.\<close>

definition bootstrap ::
  "('d, 'p, 'f) agama \<Rightarrow> ('d, 'p, 'f) world \<Rightarrow> (unit, ('d, 'p, 'f) world) outcome" where
  "bootstrap lib =
     andThen (model_iterate lib) (\<lambda>_ w.
     writeRotationCurve lib ''rotcurve_init'' (potential w) w)"

text \<open>
  Lines 82 to 93: the disk DF in the model's potential, the multipole potential with
  \<^verbatim>\<open>lmax=0, gridsizer=100, rmin=1e-3, rmax=1e3\<close> built from the model's potential, the
  bulge and halo DFs in that potential, the banner with the three masses computed from
  the DFs (one \<^verbatim>\<open>print\<close> statement, logged as two messages; the colour codes of the
  banners are left out) and the printout with iteration number 0.
\<close>

definition construct_dfs ::
  "('d, 'p, 'f) agama \<Rightarrow> config \<Rightarrow> 'd \<times> 'd \<times> 'd \<Rightarrow> ('d, 'p, 'f) world \<Rightarrow>
     ('f \<times> 'f \<times> 'f, ('d, 'p, 'f) world) outcome" where
  "construct_dfs lib cfg dens =
     (case dens of (densityDisk, densityBulge, densityHalo) \<Rightarrow>
     andThen (\<lambda>w. call (DistributionFunction lib (potential w) (iniDFDisk cfg)) w) (\<lambda>dfDisk.
     andThen (\<lambda>w. emit (NewDistributionFunction (potential w) (iniDFDisk cfg) dfDisk) w) (\<lambda>_.
     andThen (\<lambda>w. call (Multipole lib (potential w) 0 100 (1 / 1000) 1000) w) (\<lambda>pot_sph.
     andThen (\<lambda>w. emit (NewMultipole (potential w) 0 100 (1 / 1000) 1000 pot_sph) w) (\<lambda>_.
     andThen (call (PseudoIsotropic lib pot_sph densityBulge)) (\<lambda>dfBulge.
     andThen (emit (NewPseudoIsotropic pot_sph densityBulge dfBulge)) (\<lambda>_.
     andThen (call (PseudoIsotropic lib pot_sph densityHalo)) (\<lambda>dfHalo.
     andThen (emit (NewPseudoIsotropic pot_sph densityHalo dfHalo)) (\<lambda>_.
     andThen (emit (Print (Banner ''**** STARTING ITERATIVE MODELLING ****''))) (\<lambda>_.
     andThen (emit (Print (MassesFromDF dfDisk dfBulge dfHalo))) (\<lambda>_.
     andThen (printoutInfo lib 0) (\<lambda>_.
     ret (dfDisk, dfBulge, dfHalo)))))))))))))"

text \<open>Lines 96 to 98: each right-hand side is constructed, then assigned to its slot.\<close>

definition replace_components ::
  "('d, 'p, 'f) agama \<Rightarrow> config \<Rightarrow> 'f \<times> 'f \<times> 'f \<Rightarrow> ('d, 'p, 'f) world \<Rightarrow>
     (unit, ('d, 'p, 'f) world) outcome" where
  "replace_components lib cfg dfs =
     (case dfs of (dfDisk, dfBulge, dfHalo) \<Rightarrow>
     andThen (new_component lib (DFBased dfDisk True (iniSCMDisk cfg))) (\<lambda>c.
     andThen (set_component 0 c) (\<lambda>_.
     andThen (new_component lib (DFBased dfBulge False (iniSCMBulge cfg))) (\<lambda>c.
     andThen (set_component 1 c) (\<lambda>_.
     andThen (new_component lib (DFBased dfHalo False (iniSCMHalo cfg))) (\<lambda>c.
     set_component 2 c))))))"

text \<open>Lines 101 to 104: the loop body, once for each element of \<^verbatim>\<open>range(6)\<close>.\<close>

fun iterations ::
  "('d, 'p, 'f) agama \<Rightarrow> nat list \<Rightarrow> ('d, 'p, 'f) world \<Rightarrow>
     (unit, ('d, 'p, 'f) world) outcome" where
  "iterations lib [] w = Ok () w"
| "iterations lib (iteration # rest) w =
     andThen (emit (Print (StartingIteration iteration))) (\<lambda>_.
     andThen (model_iterate lib) (\<lambda>_.
     andThen (printoutInfo lib iteration) (\<lambda>_.
     iterations lib rest))) w"

text \<open>
  Lines 106 to 122: the disk's galaxy model in the final potential, the two scale
  lengths read from the disk's potential section (\<^verbatim>\<open>Hdisk\<close> is read and not used) and
  the table of disk-plane profiles. Moments and forces are computed by the library and
  numpy; the table is recorded by the objects it is computed from.
\<close>

definition float_item :: "('d, 'p, 'f) agama \<Rightarrow> kwargs \<Rightarrow> string \<Rightarrow> error + real" where
  "float_item lib d key =
     (case map_of (rev d) key of
        None \<Rightarrow> Inl (KeyError key)
      | Some v \<Rightarrow> (case float_of lib v of None \<Rightarrow> Inl (ValueError v) | Some x \<Rightarrow> Inr x))"

definition disk_profiles ::
  "('d, 'p, 'f) agama \<Rightarrow> config \<Rightarrow> 'f \<Rightarrow> ('d, 'p, 'f) world \<Rightarrow>
     (unit, ('d, 'p, 'f) world) outcome" where
  "disk_profiles lib cfg dfDisk =
     andThen (emit (Print (Banner ''Computing disk density and velocity profiles''))) (\<lambda>_.
     andThen (\<lambda>w. emit (NewGalaxyModel (potential w) dfDisk) w) (\<lambda>_.
     andThen (call (float_item lib (iniPotenDisk cfg) ''scaleradius'')) (\<lambda>Rdisk.
     andThen (call (float_item lib (iniPotenDisk cfg) ''scaleheight'')) (\<lambda>Hdisk.
     andThen model_potential (\<lambda>p.
     write_file lib ''disk_plane'' (DiskPlane p dfDisk Rdisk))))))"

text \<open>Lines 124 to 147: the six N-body snapshots, in the format \<^verbatim>\<open>'text'\<close>.\<close>

definition sample_density ::
  "('d, 'p, 'f) agama \<Rightarrow> string \<Rightarrow> string \<Rightarrow> string \<Rightarrow> nat \<Rightarrow> nat \<Rightarrow> ('d, 'p, 'f) world \<Rightarrow>
     (unit, ('d, 'p, 'f) world) outcome" where
  "sample_density lib format msg name i n =
     andThen (emit (Print (Banner msg))) (\<lambda>_.
     andThen (component_density lib i) (\<lambda>dens.
     write_file lib name (DensitySample dens n format)))"

definition sample_df ::
  "('d, 'p, 'f) agama \<Rightarrow> string \<Rightarrow> string \<Rightarrow> string \<Rightarrow> 'f \<Rightarrow> nat \<Rightarrow>
     ('d, 'p, 'f) world \<Rightarrow> (unit, ('d, 'p, 'f) world) outcome" where
  "sample_df lib format msg name df n =
     andThen (emit (Print (Banner msg))) (\<lambda>_.
     andThen (\<lambda>w. emit (NewGalaxyModel (potential w) df) w) (\<lambda>_ w.
     write_file lib name (ModelSample (potential w) df n format) w))"

definition export_nbody ::
  "('d, 'p, 'f) agama \<Rightarrow> 'f \<times> 'f \<times> 'f \<Rightarrow> ('d, 'p, 'f) world \<Rightarrow>
     (unit, ('d, 'p, 'f) world) outcome" where
  "export_nbody lib dfs =
     (case dfs of (dfDisk, dfBulge, dfHalo) \<Rightarrow>
     andThen (emit (Print (Banner ''Creating an N-body representation of the model''))) (\<lambda>_.
     andThen (sample_density lib ''text'' ''Sampling disk density'' ''dens_disk_final'' 0 160000) (\<lambda>_.
     andThen (sample_density lib ''text'' ''Sampling bulge density'' ''dens_bulge_final'' 1 40000) (\<lambda>_.
     andThen (sample_density lib ''text'' ''Sampling halo density'' ''dens_halo_final'' 2 800000) (\<lambda>_.
     andThen (sample_df lib ''text'' ''Sampling disk DF'' ''model_disk_final'' dfDisk 160000) (\<lambda>_.
     andThen (sample_df lib ''text'' ''Sampling bulge DF'' ''model_bulge_final'' dfBulge 40000) (\<lambda>_.
     sample_df lib ''text'' ''Sampling halo DF'' ''model_halo_final'' dfHalo 800000)))))))"

text \<open>
  The whole script, run on the parsed INI file and the files present at the start.
\<close>

definition start ::
  "(string \<rightharpoonup> ('d, 'p, 'f) content) \<Rightarrow> ('d, 'p, 'f) world" where
  "start fs = \<lparr>params = [], components = [], potential = None, files = fs, trace = []\<rparr>"

definition main ::
  "('d, 'p, 'f) agama \<Rightarrow> inifile \<Rightarrow> ('d, 'p, 'f) world \<Rightarrow> (unit, ('d, 'p, 'f) world) outcome" where
  "main lib ini =
     andThen (read_config ini) (\<lambda>cfg.
     andThen (create_model lib cfg) (\<lambda>dens.
     andThen (bootstrap lib) (\<lambda>_.
     andThen (construct_dfs lib cfg dens) (\<lambda>dfs.
     andThen (replace_components lib cfg dfs) (\<lambda>_.
     andThen (iterations lib [0..<6]) (\<lambda>_.
     andThen (disk_profiles lib cfg (fst dfs)) (\<lambda>_.
     export_nbody lib dfs)))))))"

definition run ::
  "('d, 'p, 'f) agama \<Rightarrow> inifile \<Rightarrow> (string \<rightharpoonup> ('d, 'p, 'f) content) \<Rightarrow>
     (unit, ('d, 'p, 'f) world) outcome" where
  "run lib ini fs = main lib ini (start fs)"

section \<open>The log determines the state\<close>

text \<open>
  Each log entry stands for one effect on the model or on the files; replaying a log from
  a state gives the state the logged calls lead to. The lists of entries below are the
  logs of the script's stages, in terms of the values the library returned.
\<close>

fun effect :: "('d, 'p, 'f) event \<Rightarrow> ('d, 'p, 'f) world \<Rightarrow> ('d, 'p, 'f) world" where
  "effect (NewSelfConsistentModel kw) w = w\<lparr>params := kw, components := [], potential := None\<rparr>"
| "effect (Append c) w = w\<lparr>components := components w @ [c]\<rparr>"
| "effect (Replace i c) w = w\<lparr>components := (components w)[i := c]\<rparr>"
| "effect (ReturnIterate p) w = w\<lparr>potential := p\<rparr>"
| "effect (Write name c) w = w\<lparr>files := (files w)(name \<mapsto> c)\<rparr>"
| "effect e w = w"

definition logged :: "('d, 'p, 'f) event \<Rightarrow> ('d, 'p, 'f) world \<Rightarrow> ('d, 'p, 'f) world" where
  "logged e w = (effect e w)\<lparr>trace := trace w @ [e]\<rparr>"

fun replay :: "('d, 'p, 'f) event list \<Rightarrow> ('d, 'p, 'f) world \<Rightarrow> ('d, 'p, 'f) world" where
  "replay [] w = w"
| "replay (e # es) w = replay es (logged e w)"

definition printout_events ::
  "('d, 'p, 'f) agama \<Rightarrow> nat \<Rightarrow> ('d, 'f) component list \<Rightarrow> 'p \<Rightarrow> ('d, 'p, 'f) event list" where
  "printout_events lib n cs p =
     [CallPrintoutInfo n,
      Print (DiskInfo (getDensity lib (Some p) (cs ! 0))),
      Print (BulgeInfo (getDensity lib (Some p) (cs ! 1))),
      Print (HaloInfo (getDensity lib (Some p) (cs ! 2))),
      Print (PotentialInfo p),
      Write (''dens_disk_iter'' @ str n) (DensityCoefs (getDensity lib (Some p) (cs ! 0))),
      Write (''dens_bulge_iter'' @ str n) (DensityCoefs (getDensity lib (Some p) (cs ! 1))),
      Write (''dens_halo_iter'' @ str n) (DensityCoefs (getDensity lib (Some p) (cs ! 2))),
      Write (''rotcurve_iter'' @ str n) (PotentialCoefs p),
      Write (''rotcurve_iter'' @ str n) (RotationCurve p)]"

text \<open>The component list, the potential and the parameters a log leads to.\<close>

fun comps_after ::
  "('d, 'p, 'f) event list \<Rightarrow> ('d, 'f) component list \<Rightarrow> ('d, 'f) component list" where
  "comps_after [] cs = cs"
| "comps_after (NewSelfConsistentModel kw # es) cs = comps_after es []"
| "comps_after (Append c # es) cs = comps_after es (cs @ [c])"
| "comps_after (Replace i c # es) cs = comps_after es (cs[i := c])"
| "comps_after (e # es) cs = comps_after es cs"

fun potential_after :: "('d, 'p, 'f) event list \<Rightarrow> 'p option \<Rightarrow> 'p option" where
  "potential_after [] p = p"
| "potential_after (NewSelfConsistentModel kw # es) p = potential_after es None"
| "potential_after (ReturnIterate q # es) p = potential_after es q"
| "potential_after (e # es) p = potential_after es p"

fun params_after :: "('d, 'p, 'f) event list \<Rightarrow> kwargs \<Rightarrow> kwargs" where
  "params_after [] kw = kw"
| "params_after (NewSelfConsistentModel kw' # es) kw = params_after es kw'"
| "params_after (e # es) kw = params_after es kw"

text \<open>
  The logs of the stages: creation of the model (lines 65 to 75), bootstrap (78, 79),
  construction of the DFs and first printout (82 to 93), replacement (96 to 98), the loop
  (101 to 104, one group of entries for each iteration number and the potential it
  produced), disk profiles (106 to 122) and snapshots (124 to 147).
\<close>

definition static_components :: "'d \<Rightarrow> 'd \<Rightarrow> 'd \<Rightarrow> ('d, 'f) component list" where
  "static_components dD dB dH =
     [StaticDensity dD True, StaticDensity dB False, StaticDensity dH False]"

definition df_components :: "config \<Rightarrow> 'f \<Rightarrow> 'f \<Rightarrow> 'f \<Rightarrow> ('d, 'f) component list" where
  "df_components cfg fD fB fH =
     [DFBased fD True (iniSCMDisk cfg), DFBased fB False (iniSCMBulge cfg),
      DFBased fH False (iniSCMHalo cfg)]"

definition create_events :: "config \<Rightarrow> 'd \<Rightarrow> 'd \<Rightarrow> 'd \<Rightarrow> ('d, 'p, 'f) event list" where
  "create_events cfg dD dB dH =
     [NewSelfConsistentModel (iniSCM cfg),
      NewDensity (iniPotenDisk cfg) dD, NewDensity (iniPotenBulge cfg) dB,
      NewDensity (iniPotenHalo cfg) dH,
      Append (StaticDensity dD True), Append (StaticDensity dB False),
      Append (StaticDensity dH False)]"

definition bootstrap_events :: "('d, 'f) component list \<Rightarrow> 'p \<Rightarrow> ('d, 'p, 'f) event list" where
  "bootstrap_events cs p =
     [CallIterate cs, ReturnIterate (Some p),
      Write ''rotcurve_init'' (PotentialCoefs p), Write ''rotcurve_init'' (RotationCurve p)]"

definition df_events ::
  "('d, 'p, 'f) agama \<Rightarrow> config \<Rightarrow> ('d, 'f) component list \<Rightarrow> 'p \<Rightarrow> 'd \<Rightarrow> 'd \<Rightarrow>
     'f \<Rightarrow> 'p \<Rightarrow> 'f \<Rightarrow> 'f \<Rightarrow> ('d, 'p, 'f) event list" where
  "df_events lib cfg cs p dB dH fD ps fB fH =
     [NewDistributionFunction (Some p) (iniDFDisk cfg) fD,
      NewMultipole (Some p) 0 100 (1 / 1000) 1000 ps,
      NewPseudoIsotropic ps dB fB, NewPseudoIsotropic ps dH fH,
      Print (Banner ''**** STARTING ITERATIVE MODELLING ****''),
      Print (MassesFromDF fD fB fH)] @ printout_events lib 0 cs p"

definition replace_events :: "config \<Rightarrow> 'f \<Rightarrow> 'f \<Rightarrow> 'f \<Rightarrow> ('d, 'p, 'f) event list" where
  "replace_events cfg fD fB fH =
     [Replace 0 (DFBased fD True (iniSCMDisk cfg)),
      Replace 1 (DFBased fB False (iniSCMBulge cfg)),
      Replace 2 (DFBased fH False (iniSCMHalo cfg))]"

fun loop_events ::
  "('d, 'p, 'f) agama \<Rightarrow> ('d, 'f) component list \<Rightarrow> (nat \<times> 'p) list \<Rightarrow> ('d, 'p, 'f) event list" where
  "loop_events lib cs [] = []"
| "loop_events lib cs ((i, p) # r) =
     [Print (StartingIteration i), CallIterate cs, ReturnIterate (Some p)]
     @ printout_events lib i cs p @ loop_events lib cs r"

text \<open>
  \<open>solved_chain lib kw cs p pots\<close>: each potential of \<open>pots\<close> is what the solver returns for
  the contributions of the components \<open>cs\<close> in the potential before it, starting from
  \<open>p\<close>.
\<close>

fun solved_chain ::
  "('d, 'p, 'f) agama \<Rightarrow> kwargs \<Rightarrow> ('d, 'f) component list \<Rightarrow> 'p option \<Rightarrow> 'p list \<Rightarrow> bool" where
  "solved_chain lib kw cs p [] = True"
| "solved_chain lib kw cs p (q # qs) =
     (PotentialSolver lib kw (map (getDensity lib p) cs) = Some q \<and>
      solved_chain lib kw cs (Some q) qs)"

definition profile_events :: "'p \<Rightarrow> 'f \<Rightarrow> real \<Rightarrow> ('d, 'p, 'f) event list" where
  "profile_events p fD Rdisk =
     [Print (Banner ''Computing disk density and velocity profiles''),
      NewGalaxyModel (Some p) fD,
      Write ''disk_plane'' (DiskPlane p fD Rdisk)]"

definition nbody_events ::
  "('d, 'p, 'f) agama \<Rightarrow> ('d, 'f) component list \<Rightarrow> 'p \<Rightarrow> 'f \<Rightarrow> 'f \<Rightarrow> 'f \<Rightarrow>
     ('d, 'p, 'f) event list" where
  "nbody_events lib cs p fD fB fH =
     [Print (Banner ''Creating an N-body representation of the model''),
      Print (Banner ''Sampling disk density''),
      Write ''dens_disk_final'' (DensitySample (getDensity lib (Some p) (cs ! 0)) 160000 ''text''),
      Print (Banner ''Sampling bulge density''),
      Write ''dens_bulge_final'' (DensitySample (getDensity lib (Some p) (cs ! 1)) 40000 ''text''),
      Print (Banner ''Sampling halo density''),
      Write ''dens_halo_final'' (DensitySample (getDensity lib (Some p) (cs ! 2)) 800000 ''text''),
      Print (Banner ''Sampling disk DF''),
      NewGalaxyModel (Some p) fD,
      Write ''model_disk_final'' (ModelSample (Some p) fD 160000 ''text''),
      Print (Banner ''Sampling bulge DF''),
      NewGalaxyModel (Some p) fB,
      Write ''model_bulge_final'' (ModelSample (Some p) fB 40000 ''text''),
      Print (Banner ''Sampling halo DF''),
      NewGalaxyModel (Some p) fH,
      Write ''model_halo_final'' (ModelSample (Some p) fH 800000 ''text'')]"

text \<open>A logged write was accepted: writing that content to that file raised no error.\<close>

fun accepted :: "('d, 'p, 'f) agama \<Rightarrow> ('d, 'p, 'f) event \<Rightarrow> bool" where
  "accepted lib (Write name c) = (write_error lib name c = None)"
| "accepted lib e = True"

text \<open>
  The log of a whole run, and the conditions under which the library returned the values
  in it and accepted every constructor call and every write: \<open>p0\<close> is the potential of the bootstrap
  iteration, \<open>ps\<close> the spherical potential, \<open>pots\<close> the potentials of the six later
  iterations.
\<close>

definition script_events ::
  "('d, 'p, 'f) agama \<Rightarrow> config \<Rightarrow> 'd \<Rightarrow> 'd \<Rightarrow> 'd \<Rightarrow> 'p \<Rightarrow> 'f \<Rightarrow> 'p \<Rightarrow> 'f \<Rightarrow> 'f \<Rightarrow>
     'p list \<Rightarrow> real \<Rightarrow> ('d, 'p, 'f) event list" where
  "script_events lib cfg dD dB dH p0 fD ps fB fH pots Rdisk =
     create_events cfg dD dB dH
     @ bootstrap_events (static_components dD dB dH) p0
     @ df_events lib cfg (static_components dD dB dH) p0 dB dH fD ps fB fH
     @ replace_events cfg fD fB fH
     @ loop_events lib (df_components cfg fD fB fH) (zip [0..<6] pots)
     @ profile_events (last pots) fD Rdisk
     @ nbody_events lib (df_components cfg fD fB fH) (last pots) fD fB fH"

definition obtained ::
  "('d, 'p, 'f) agama \<Rightarrow> inifile \<Rightarrow> config \<Rightarrow> 'd \<Rightarrow> 'd \<Rightarrow> 'd \<Rightarrow> 'p \<Rightarrow> 'f \<Rightarrow> 'p \<Rightarrow> 'f \<Rightarrow> 'f \<Rightarrow>
     'p list \<Rightarrow> real \<Rightarrow> bool" where
  "obtained lib ini cfg dD dB dH p0 fD ps fB fH pots Rdisk \<longleftrightarrow>
     items ini ''Potential halo'' = Inr (iniPotenHalo cfg) \<and>
     items ini ''Potential bulge'' = Inr (iniPotenBulge cfg) \<and>
     items ini ''Potential disk'' = Inr (iniPotenDisk cfg) \<and>
     items ini ''DF disk'' = Inr (iniDFDisk cfg) \<and>
     items ini ''SelfConsistentModel halo'' = Inr (iniSCMHalo cfg) \<and>
     items ini ''SelfConsistentModel bulge'' = Inr (iniSCMBulge cfg) \<and>
     items ini ''SelfConsistentModel disk'' = Inr (iniSCMDisk cfg) \<and>
     items ini ''SelfConsistentModel'' = Inr (iniSCM cfg) \<and>
     Density lib (iniPotenDisk cfg) = Inr dD \<and>
     Density lib (iniPotenBulge cfg) = Inr dB \<and>
     Density lib (iniPotenHalo cfg) = Inr dH \<and>
     PotentialSolver lib (iniSCM cfg) [dD, dB, dH] = Some p0 \<and>
     DistributionFunction lib (Some p0) (iniDFDisk cfg) = Inr fD \<and>
     Multipole lib (Some p0) 0 100 (1 / 1000) 1000 = Inr ps \<and>
     PseudoIsotropic lib ps dB = Inr fB \<and>
     PseudoIsotropic lib ps dH = Inr fH \<and>
     length pots = 6 \<and>
     solved_chain lib (iniSCM cfg) (df_components cfg fD fB fH) (Some p0) pots \<and>
     float_item lib (iniPotenDisk cfg) ''scaleradius'' = Inr Rdisk \<and>
     (\<exists>Hdisk. float_item lib (iniPotenDisk cfg) ''scaleheight'' = Inr Hdisk) \<and>
     SelfConsistentModel lib (iniSCM cfg) = None \<and>
     Component lib (StaticDensity dD True) = None \<and>
     Component lib (StaticDensity dB False) = None \<and>
     Component lib (StaticDensity dH False) = None \<and>
     Component lib (DFBased fD True (iniSCMDisk cfg)) = None \<and>
     Component lib (DFBased fB False (iniSCMBulge cfg)) = None \<and>
     Component lib (DFBased fH False (iniSCMHalo cfg)) = None \<and>
     list_all (accepted lib) (script_events lib cfg dD dB dH p0 fD ps fB fH pots Rdisk)"

section \<open>Views of a log\<close>

text \<open>\<open>pick f es\<close> lists, in order, what \<open>f\<close> selects from the entries of a log.\<close>

primrec pick :: "('a \<Rightarrow> 'b option) \<Rightarrow> 'a list \<Rightarrow> 'b list" where
  "pick f [] = []"
| "pick f (x # xs) = (case f x of None \<Rightarrow> pick f xs | Some y \<Rightarrow> y # pick f xs)"

text \<open>The component list at each entry into \<^verbatim>\<open>iterate()\<close>, and the potential at each return.\<close>

fun iterate_call :: "('d, 'p, 'f) event \<Rightarrow> ('d, 'f) component list option" where
  "iterate_call (CallIterate cs) = Some cs"
| "iterate_call e = None"

fun iterate_return :: "('d, 'p, 'f) event \<Rightarrow> 'p option option" where
  "iterate_return (ReturnIterate p) = Some p"
| "iterate_return e = None"

text \<open>Entries into and returns from \<^verbatim>\<open>iterate()\<close>, and assignments to a component slot.\<close>

datatype step = IterateCalled | IterateReturned | SlotAssigned nat

fun step_of :: "('d, 'p, 'f) event \<Rightarrow> step option" where
  "step_of (CallIterate cs) = Some IterateCalled"
| "step_of (ReturnIterate p) = Some IterateReturned"
| "step_of (Replace i c) = Some (SlotAssigned i)"
| "step_of e = None"

text \<open>Constructions of distribution functions and of the potential they are built in.\<close>

fun construction :: "('d, 'p, 'f) event \<Rightarrow> ('d, 'p, 'f) event option" where
  "construction (NewDistributionFunction p kw f) = Some (NewDistributionFunction p kw f)"
| "construction (NewMultipole p lmax gridsizer rmin rmax q) =
     Some (NewMultipole p lmax gridsizer rmin rmax q)"
| "construction (NewPseudoIsotropic p d f) = Some (NewPseudoIsotropic p d f)"
| "construction e = None"

text \<open>Returns of \<^verbatim>\<open>iterate()\<close>, which publish a potential, together with the constructions.\<close>

fun potential_event :: "('d, 'p, 'f) event \<Rightarrow> ('d, 'p, 'f) event option" where
  "potential_event (ReturnIterate p) = Some (ReturnIterate p)"
| "potential_event e = construction e"

text \<open>Changes of the component list: appended components and assigned slots.\<close>

fun appended :: "('d, 'p, 'f) event \<Rightarrow> ('d, 'f) component option" where
  "appended (Append c) = Some c"
| "appended e = None"

fun assigned :: "('d, 'p, 'f) event \<Rightarrow> (nat \<times> ('d, 'f) component) option" where
  "assigned (Replace i c) = Some (i, c)"
| "assigned e = None"

text \<open>
  The values the component list takes: each time an entry of the log changes the
  component list, the list it becomes.
\<close>

fun changes ::
  "('d, 'f) component list \<Rightarrow> ('d, 'p, 'f) event list \<Rightarrow> ('d, 'f) component list list" where
  "changes cs [] = []"
| "changes cs (e # es) =
     (if comps_after [e] cs = cs then changes cs es
      else comps_after [e] cs # changes (comps_after [e] cs) es)"

text \<open>Calls of \<^verbatim>\<open>printoutInfo\<close>, contents written to a file name, galaxy models built.\<close>

fun printout_call :: "('d, 'p, 'f) event \<Rightarrow> nat option" where
  "printout_call (CallPrintoutInfo n) = Some n"
| "printout_call e = None"

fun written :: "string \<Rightarrow> ('d, 'p, 'f) event \<Rightarrow> ('d, 'p, 'f) content option" where
  "written name (Write n c) = (if n = name then Some c else None)"
| "written name e = None"

fun galaxy_model :: "('d, 'p, 'f) event \<Rightarrow> ('p option \<times> 'f) option" where
  "galaxy_model (NewGalaxyModel p f) = Some (p, f)"
| "galaxy_model e = None"

abbreviation run_trace ::
  "('d, 'p, 'f) agama \<Rightarrow> inifile \<Rightarrow> (string \<rightharpoonup> ('d, 'p, 'f) content) \<Rightarrow>
     ('d, 'p, 'f) event list" where
  "run_trace lib ini fs \<equiv> trace (final (run lib ini fs))"

section \<open>A concrete library and INI file\<close>

text \<open>
  Densities, potentials and distribution functions are numbers here. The solver sums
  the contributions and cannot produce a potential from no contribution at all; a file
  with the empty name cannot be written.
\<close>

definition lib0 :: "(nat, nat, nat) agama" where
  "lib0 =
     \<lparr>SelfConsistentModel = (\<lambda>kw. None),
      Density = (\<lambda>kw. Inr (length kw)),
      Component = (\<lambda>c. None),
      DistributionFunction = (\<lambda>p kw. Inr 7),
      Multipole = (\<lambda>p lmax gridsizer rmin rmax. Inr 9),
      PseudoIsotropic = (\<lambda>p d. Inr (p + d)),
      density_from_df = (\<lambda>f b kw p. f),
      PotentialSolver = (\<lambda>kw ds. if ds = [] then None else Some (sum_list ds)),
      float_of = (\<lambda>s. if s = ''3'' then Some 3 else None),
      write_error = (\<lambda>name c. if name = [] then Some (IOError name) else None)\<rparr>"

definition ini0 :: inifile where
  "ini0 =
     [(''Potential halo'', [(''type'', ''Spheroid'')]),
      (''Potential bulge'', [(''type'', ''Sersic''), (''mass'', ''1'')]),
      (''Potential disk'',
         [(''type'', ''Disk''), (''scaleradius'', ''3''), (''scaleheight'', ''3'')]),
      (''DF disk'', [(''type'', ''QuasiIsothermal'')]),
      (''SelfConsistentModel halo'', []),
      (''SelfConsistentModel bulge'', []),
      (''SelfConsistentModel disk'', []),
      (''SelfConsistentModel'', [])]"

definition no_files :: "string \<rightharpoonup> (nat, nat, nat) content" where
  "no_files = Map.empty"

definition published :: "(nat, nat, nat) world" where
  "published = (start no_files)\<lparr>potential := Some 5\<rparr>"

section \<open>Successful statements\<close>

lemma andThen_Ok:
  "andThen m f s = Ok b s' \<longleftrightarrow> (\<exists>a s1. m s = Ok a s1 \<and> f a s1 = Ok b s')"
  by (simp add: andThen_def split: outcome.splits)

lemma call_Ok: "call r s = Ok a s' \<longleftrightarrow> r = Inr a \<and> s' = s"
  by (auto simp: call_def split: sum.splits)

lemma check_Ok: "check r s = Ok u s' \<longleftrightarrow> r = None \<and> s' = s"
  by (auto simp: check_def split: option.splits)

lemma ret_Ok: "ret a s = Ok b s' \<longleftrightarrow> b = a \<and> s' = s"
  by (auto simp: ret_def)

lemma replay_append: "replay (xs @ ys) w = replay ys (replay xs w)"
  by (induction xs arbitrary: w) simp_all

lemma trace_replay: "trace (replay es w) = trace w @ es"
  by (induction es arbitrary: w) (simp_all add: logged_def)

lemma emit_passive: "effect e w = w \<Longrightarrow> emit e w = Ok () (logged e w)"
  by (simp add: emit_def logged_def)

lemma write_file_Ok:
  "write_file lib name c w = Ok u w' \<longleftrightarrow>
     write_error lib name c = None \<and> w' = logged (Write name c) w"
  by (auto simp: write_file_def logged_def split: option.splits)

lemma append_component_logged: "append_component c w = Ok () (logged (Append c) w)"
  by (simp add: append_component_def logged_def)

lemma set_component_Ok:
  "set_component i c w = Ok u w' \<longleftrightarrow> i < length (components w) \<and> w' = logged (Replace i c) w"
  by (auto simp: set_component_def logged_def)

lemma component_at_Ok:
  "component_at i w = Ok c w' \<longleftrightarrow> i < length (components w) \<and> c = components w ! i \<and> w' = w"
  by (auto simp: component_at_def)

lemma model_potential_Ok:
  "model_potential w = Ok p w' \<longleftrightarrow> potential w = Some p \<and> w' = w"
  by (auto simp: model_potential_def split: option.splits)

lemma components_replay: "components (replay es w) = comps_after es (components w)"
  by (induction es "components w" arbitrary: w rule: comps_after.induct)
     (simp_all add: logged_def)

lemma potential_replay: "potential (replay es w) = potential_after es (potential w)"
  by (induction es "potential w" arbitrary: w rule: potential_after.induct)
     (simp_all add: logged_def)

lemma params_replay: "params (replay es w) = params_after es (params w)"
  by (induction es "params w" arbitrary: w rule: params_after.induct)
     (simp_all add: logged_def)

lemma logged_fields:
  "components (logged e w) = comps_after [e] (components w)"
  "potential (logged e w) = potential_after [e] (potential w)"
  "params (logged e w) = params_after [e] (params w)"
  using components_replay [of "[e]" w] potential_replay [of "[e]" w] params_replay [of "[e]" w]
  by simp_all

lemma writeRotationCurve_Ok:
  "writeRotationCurve lib name pot w = Ok u w' \<longleftrightarrow>
     (\<exists>p. pot = Some p \<and>
        write_error lib name (PotentialCoefs p) = None \<and>
        write_error lib name (RotationCurve p) = None \<and>
        w' = replay [Write name (PotentialCoefs p), Write name (RotationCurve p)] w)"
  by (cases pot) (auto simp: writeRotationCurve_def andThen_Ok write_file_Ok)

lemma component_density_Ok:
  "component_density lib i w = Ok d w' \<longleftrightarrow>
     i < length (components w) \<and> d = getDensity lib (potential w) (components w ! i) \<and> w' = w"
  by (auto simp: component_density_def andThen_Ok component_at_Ok)


lemma printoutInfo_Ok_iff:
  "printoutInfo lib n w = Ok u w' \<longleftrightarrow>
     (\<exists>p. potential w = Some p \<and> 2 < length (components w) \<and>
         list_all (accepted lib) (printout_events lib n (components w) p) \<and>
         w' = replay (printout_events lib n (components w) p) w)"
  by (auto simp: printoutInfo_def andThen_Ok emit_passive write_file_Ok component_density_Ok
        model_potential_Ok writeRotationCurve_Ok logged_fields printout_events_def)

lemmas printoutInfo_Ok = printoutInfo_Ok_iff [THEN iffD1]

lemma comps_after_append: "comps_after (xs @ ys) cs = comps_after ys (comps_after xs cs)"
  by (induction xs cs rule: comps_after.induct) simp_all

lemma potential_after_append:
  "potential_after (xs @ ys) p = potential_after ys (potential_after xs p)"
  by (induction xs p rule: potential_after.induct) simp_all

lemma params_after_append: "params_after (xs @ ys) kw = params_after ys (params_after xs kw)"
  by (induction xs kw rule: params_after.induct) simp_all

lemma printout_passive:
  "comps_after (printout_events lib n cs p) cs' = cs'"
  "potential_after (printout_events lib n cs p) q = q"
  "params_after (printout_events lib n cs p) kw = kw"
  by (simp_all add: printout_events_def)

lemma model_iterate_Ok_iff:
  "model_iterate lib w = Ok u w' \<longleftrightarrow>
     (\<exists>p. PotentialSolver lib (params w) (map (getDensity lib (potential w)) (components w))
            = Some p
        \<and> w' = replay [CallIterate (components w), ReturnIterate (Some p)] w)"
  by (auto simp: model_iterate_def andThen_def emit_def iterate_def logged_def
      split: option.splits)

lemmas model_iterate_Ok = model_iterate_Ok_iff [THEN iffD1]

lemma read_config_Ok_iff:
  "read_config ini s = Ok cfg s' \<longleftrightarrow>
     s' = s \<and>
     items ini ''Potential halo'' = Inr (iniPotenHalo cfg) \<and>
     items ini ''Potential bulge'' = Inr (iniPotenBulge cfg) \<and>
     items ini ''Potential disk'' = Inr (iniPotenDisk cfg) \<and>
     items ini ''DF disk'' = Inr (iniDFDisk cfg) \<and>
     items ini ''SelfConsistentModel halo'' = Inr (iniSCMHalo cfg) \<and>
     items ini ''SelfConsistentModel bulge'' = Inr (iniSCMBulge cfg) \<and>
     items ini ''SelfConsistentModel disk'' = Inr (iniSCMDisk cfg) \<and>
     items ini ''SelfConsistentModel'' = Inr (iniSCM cfg)"
  by (auto simp: read_config_def andThen_Ok call_Ok ret_Ok)

lemmas read_config_Ok = read_config_Ok_iff [THEN iffD1]

lemma create_model_Ok_iff:
  "create_model lib cfg w = Ok dens w' \<longleftrightarrow>
     (\<exists>dD dB dH. dens = (dD, dB, dH) \<and>
       SelfConsistentModel lib (iniSCM cfg) = None \<and>
       Density lib (iniPotenDisk cfg) = Inr dD \<and>
       Density lib (iniPotenBulge cfg) = Inr dB \<and>
       Density lib (iniPotenHalo cfg) = Inr dH \<and>
       Component lib (StaticDensity dD True) = None \<and>
       Component lib (StaticDensity dB False) = None \<and>
       Component lib (StaticDensity dH False) = None \<and>
       w' = replay (create_events cfg dD dB dH) w)"
  by (auto simp: create_model_def new_model_def new_density_def new_component_def
        andThen_Ok call_Ok check_Ok ret_Ok emit_def append_component_logged logged_def
        create_events_def)

lemmas create_model_Ok = create_model_Ok_iff [THEN iffD1]

lemma bootstrap_Ok_iff:
  "bootstrap lib w = Ok u w' \<longleftrightarrow>
     (\<exists>p. PotentialSolver lib (params w) (map (getDensity lib (potential w)) (components w))
            = Some p
        \<and> list_all (accepted lib) (bootstrap_events (components w) p)
        \<and> w' = replay (bootstrap_events (components w) p) w)"
  by (auto simp: bootstrap_def andThen_Ok writeRotationCurve_Ok bootstrap_events_def
        logged_fields model_iterate_Ok_iff)

lemmas bootstrap_Ok = bootstrap_Ok_iff [THEN iffD1]

lemma passive_events:
  "effect (NewDistributionFunction p kw f) w = w"
  "effect (NewMultipole p l g a b q) w = w"
  "effect (NewPseudoIsotropic q d f) w = w"
  "effect (Print m) w = w"
  "effect (NewGalaxyModel p f) w = w"
  "effect (NewDensity kw d) w = w"
  "effect (CallIterate cs) w = w"
  "effect (CallPrintoutInfo n) w = w"
  by simp_all

lemma construct_dfs_Ok_iff:
  "construct_dfs lib cfg (dD, dB, dH) w = Ok dfs w' \<longleftrightarrow>
     (\<exists>p fD ps fB fH. dfs = (fD, fB, fH) \<and> potential w = Some p \<and>
       2 < length (components w) \<and>
       DistributionFunction lib (Some p) (iniDFDisk cfg) = Inr fD \<and>
       Multipole lib (Some p) 0 100 (1 / 1000) 1000 = Inr ps \<and>
       PseudoIsotropic lib ps dB = Inr fB \<and>
       PseudoIsotropic lib ps dH = Inr fH \<and>
       list_all (accepted lib) (df_events lib cfg (components w) p dB dH fD ps fB fH) \<and>
       w' = replay (df_events lib cfg (components w) p dB dH fD ps fB fH) w)"
  by (auto simp: construct_dfs_def andThen_Ok call_Ok ret_Ok emit_passive printoutInfo_Ok_iff
        df_events_def logged_fields replay_append)

lemmas construct_dfs_Ok = construct_dfs_Ok_iff [THEN iffD1]

lemma replace_components_Ok_iff:
  "replace_components lib cfg (fD, fB, fH) w = Ok u w' \<longleftrightarrow>
     2 < length (components w) \<and>
     Component lib (DFBased fD True (iniSCMDisk cfg)) = None \<and>
     Component lib (DFBased fB False (iniSCMBulge cfg)) = None \<and>
     Component lib (DFBased fH False (iniSCMHalo cfg)) = None \<and>
     w' = replay (replace_events cfg fD fB fH) w"
  by (auto simp: replace_components_def new_component_def andThen_Ok check_Ok ret_Ok
        set_component_Ok replace_events_def logged_fields)

lemmas replace_components_Ok = replace_components_Ok_iff [THEN iffD1]

lemma iterations_Ok:
  "iterations lib its w = Ok u w' \<Longrightarrow>
     \<exists>pots. length pots = length its \<and>
       solved_chain lib (params w) (components w) (potential w) pots \<and>
       list_all (accepted lib) (loop_events lib (components w) (zip its pots)) \<and>
       w' = replay (loop_events lib (components w) (zip its pots)) w"
proof (induction its arbitrary: w)
  case Nil
  then show ?case by simp
next
  case (Cons i r)
  let ?w1 = "logged (Print (StartingIteration i)) w"
  from Cons.prems obtain w2 w3 where
    it: "model_iterate lib ?w1 = Ok () w2" and
    pr: "printoutInfo lib i w2 = Ok () w3" and
    rest: "iterations lib r w3 = Ok u w'"
    by (auto simp: andThen_Ok emit_passive)
  from model_iterate_Ok [OF it] obtain p where
    p: "PotentialSolver lib (params w) (map (getDensity lib (potential w)) (components w)) = Some p"
    and w2: "w2 = replay [CallIterate (components w), ReturnIterate (Some p)] ?w1"
    by (auto simp: logged_fields)
  from printoutInfo_Ok [OF pr] w2 have
    acc: "list_all (accepted lib) (printout_events lib i (components w) p)" and
    w3: "w3 = replay (printout_events lib i (components w) p) w2"
    by (auto simp: logged_fields)
  have fields: "params w3 = params w" "components w3 = components w" "potential w3 = Some p"
    by (simp_all add: w3 w2 params_replay components_replay potential_replay printout_passive
          logged_fields)
  from Cons.IH [OF rest] fields obtain pots where
    len: "length pots = length r" and
    chain: "solved_chain lib (params w) (components w) (Some p) pots" and
    accs: "list_all (accepted lib) (loop_events lib (components w) (zip r pots))" and
    w': "w' = replay (loop_events lib (components w) (zip r pots)) w3"
    by auto
  have "w' = replay (loop_events lib (components w) (zip (i # r) (p # pots))) w"
    by (simp add: w' w3 w2 replay_append)
  with len chain p acc accs show ?case
    by (intro exI [of _ "p # pots"]) simp
qed

lemma disk_profiles_Ok_iff:
  "disk_profiles lib cfg fD w = Ok u w' \<longleftrightarrow>
     (\<exists>p Rdisk Hdisk. potential w = Some p \<and>
       float_item lib (iniPotenDisk cfg) ''scaleradius'' = Inr Rdisk \<and>
       float_item lib (iniPotenDisk cfg) ''scaleheight'' = Inr Hdisk \<and>
       list_all (accepted lib) (profile_events p fD Rdisk) \<and>
       w' = replay (profile_events p fD Rdisk) w)"
  by (auto simp: disk_profiles_def andThen_Ok call_Ok emit_passive model_potential_Ok
        write_file_Ok profile_events_def logged_fields)

lemmas disk_profiles_Ok = disk_profiles_Ok_iff [THEN iffD1]

lemma sample_density_Ok:
  "sample_density lib fmt msg name i n w = Ok u w' \<longleftrightarrow>
     i < length (components w) \<and>
     write_error lib name
       (DensitySample (getDensity lib (potential w) (components w ! i)) n fmt) = None \<and>
     w' = replay [Print (Banner msg),
            Write name (DensitySample (getDensity lib (potential w) (components w ! i)) n fmt)] w"
  by (auto simp: sample_density_def andThen_Ok emit_passive component_density_Ok
        write_file_Ok logged_fields)

lemma sample_df_Ok:
  "sample_df lib fmt msg name df n w = Ok u w' \<longleftrightarrow>
     write_error lib name (ModelSample (potential w) df n fmt) = None \<and>
     w' = replay [Print (Banner msg), NewGalaxyModel (potential w) df,
            Write name (ModelSample (potential w) df n fmt)] w"
  by (auto simp: sample_df_def andThen_Ok emit_passive write_file_Ok logged_fields)

lemma export_nbody_Ok_iff:
  "potential w = Some p \<Longrightarrow>
     export_nbody lib (fD, fB, fH) w = Ok u w' \<longleftrightarrow>
       2 < length (components w) \<and>
       list_all (accepted lib) (nbody_events lib (components w) p fD fB fH) \<and>
       w' = replay (nbody_events lib (components w) p fD fB fH) w"
  by (auto simp: export_nbody_def andThen_Ok emit_passive sample_density_Ok sample_df_Ok
        nbody_events_def logged_fields)

lemma export_nbody_Ok:
  "export_nbody lib (fD, fB, fH) w = Ok u w' \<Longrightarrow> potential w = Some p \<Longrightarrow>
     2 < length (components w) \<and>
     list_all (accepted lib) (nbody_events lib (components w) p fD fB fH) \<and>
     w' = replay (nbody_events lib (components w) p fD fB fH) w"
  by (simp add: export_nbody_Ok_iff)

lemma iterations_succeeds:
  "length pots = length its \<Longrightarrow> 2 < length (components w) \<Longrightarrow>
     solved_chain lib (params w) (components w) (potential w) pots \<Longrightarrow>
     list_all (accepted lib) (loop_events lib (components w) (zip its pots)) \<Longrightarrow>
     iterations lib its w = Ok () (replay (loop_events lib (components w) (zip its pots)) w)"
proof (induction its arbitrary: w pots)
  case Nil
  then show ?case by simp
next
  case (Cons i r)
  from Cons.prems(1) obtain p qs where pots: "pots = p # qs" and len: "length qs = length r"
    by (cases pots) auto
  let ?w1 = "logged (Print (StartingIteration i)) w"
  let ?w2 = "replay [CallIterate (components w), ReturnIterate (Some p)] ?w1"
  let ?w3 = "replay (printout_events lib i (components w) p) ?w2"
  from Cons.prems(3) pots have
    p: "PotentialSolver lib (params w) (map (getDensity lib (potential w)) (components w)) = Some p"
    and chain: "solved_chain lib (params w) (components w) (Some p) qs"
    by simp_all
  from Cons.prems(4) pots have
    acc: "list_all (accepted lib) (printout_events lib i (components w) p)" and
    accs: "list_all (accepted lib) (loop_events lib (components w) (zip r qs))"
    by simp_all
  from p have it: "model_iterate lib ?w1 = Ok () ?w2"
    by (simp add: model_iterate_Ok_iff logged_fields)
  from Cons.prems(2) acc have pr: "printoutInfo lib i ?w2 = Ok () ?w3"
    by (simp add: printoutInfo_Ok_iff logged_fields)
  have fields: "params ?w3 = params w" "components ?w3 = components w" "potential ?w3 = Some p"
    by (simp_all add: params_replay components_replay potential_replay printout_passive
          logged_fields)
  from Cons.IH [of qs ?w3] len Cons.prems(2) chain accs fields have
    "iterations lib r ?w3 = Ok () (replay (loop_events lib (components w) (zip r qs)) ?w3)"
    by simp
  with it pr show ?case
    by (simp add: andThen_def emit_passive pots replay_append)
qed

section \<open>The log of a successful run\<close>

lemma create_events_fields:
  "comps_after (create_events cfg dD dB dH) cs = static_components dD dB dH"
  "potential_after (create_events cfg dD dB dH) p = None"
  "params_after (create_events cfg dD dB dH) kw = iniSCM cfg"
  by (simp_all add: create_events_def static_components_def)

lemma bootstrap_events_fields:
  "comps_after (bootstrap_events cs p) cs' = cs'"
  "potential_after (bootstrap_events cs p) q = Some p"
  "params_after (bootstrap_events cs p) kw = kw"
  by (simp_all add: bootstrap_events_def)

lemma df_events_fields:
  "comps_after (df_events lib cfg cs p dB dH fD ps fB fH) cs' = cs'"
  "potential_after (df_events lib cfg cs p dB dH fD ps fB fH) q = q"
  "params_after (df_events lib cfg cs p dB dH fD ps fB fH) kw = kw"
  by (simp_all add: df_events_def comps_after_append potential_after_append
        params_after_append printout_passive)

lemma replace_events_fields:
  "comps_after (replace_events cfg fD fB fH) (static_components dD dB dH)
     = df_components cfg fD fB fH"
  "potential_after (replace_events cfg fD fB fH) q = q"
  "params_after (replace_events cfg fD fB fH) kw = kw"
  by (simp_all add: replace_events_def static_components_def df_components_def)

lemma loop_events_fields:
  "comps_after (loop_events lib cs ips) cs' = cs'"
  "params_after (loop_events lib cs ips) kw = kw"
  "potential_after (loop_events lib cs ips) q = (if ips = [] then q else Some (snd (last ips)))"
  by (induction ips arbitrary: q)
     (auto simp: comps_after_append potential_after_append params_after_append printout_passive)

lemma profile_events_fields:
  "comps_after (profile_events p fD Rdisk) cs' = cs'"
  "potential_after (profile_events p fD Rdisk) q = q"
  "params_after (profile_events p fD Rdisk) kw = kw"
  by (simp_all add: profile_events_def)

lemma snd_last_zip:
  assumes "length xs = length ys" "ys \<noteq> []"
  shows "zip xs ys \<noteq> [] \<and> snd (last (zip xs ys)) = last ys"
proof -
  from assms have ne: "zip xs ys \<noteq> []"
    by (cases xs; cases ys) simp_all
  with assms show ?thesis
    by (simp add: last_conv_nth)
qed

lemma last_zip_six:
  "length pots = 6 \<Longrightarrow>
     zip [0..<6] pots \<noteq> [] \<and> snd (last (zip [0..<6] pots)) = last pots"
  by (rule snd_last_zip) auto

lemma run_Ok:
  assumes "run lib ini fs = Ok u w"
  shows "\<exists>cfg dD dB dH p0 fD ps fB fH pots Rdisk.
           obtained lib ini cfg dD dB dH p0 fD ps fB fH pots Rdisk \<and>
           w = replay (script_events lib cfg dD dB dH p0 fD ps fB fH pots Rdisk) (start fs)"
proof -
  from assms obtain cfg w0 dens w1 w2 dfs w3 w4 w5 w6 where
    s0: "read_config ini (start fs) = Ok cfg w0" and
    s1: "create_model lib cfg w0 = Ok dens w1" and
    s2: "bootstrap lib w1 = Ok () w2" and
    s3: "construct_dfs lib cfg dens w2 = Ok dfs w3" and
    s4: "replace_components lib cfg dfs w3 = Ok () w4" and
    s5: "iterations lib [0..<6] w4 = Ok () w5" and
    s6: "disk_profiles lib cfg (fst dfs) w5 = Ok () w6" and
    s7: "export_nbody lib dfs w6 = Ok u w"
    by (auto simp: run_def main_def andThen_Ok)
  from read_config_Ok [OF s0] have w0: "w0 = start fs" and
    ini: "items ini ''Potential halo'' = Inr (iniPotenHalo cfg)"
      "items ini ''Potential bulge'' = Inr (iniPotenBulge cfg)"
      "items ini ''Potential disk'' = Inr (iniPotenDisk cfg)"
      "items ini ''DF disk'' = Inr (iniDFDisk cfg)"
      "items ini ''SelfConsistentModel halo'' = Inr (iniSCMHalo cfg)"
      "items ini ''SelfConsistentModel bulge'' = Inr (iniSCMBulge cfg)"
      "items ini ''SelfConsistentModel disk'' = Inr (iniSCMDisk cfg)"
      "items ini ''SelfConsistentModel'' = Inr (iniSCM cfg)"
    by simp_all
  from create_model_Ok [OF s1] obtain dD dB dH where
    dens: "dens = (dD, dB, dH)" and
    d: "Density lib (iniPotenDisk cfg) = Inr dD" "Density lib (iniPotenBulge cfg) = Inr dB"
       "Density lib (iniPotenHalo cfg) = Inr dH" and
    c1: "SelfConsistentModel lib (iniSCM cfg) = None"
       "Component lib (StaticDensity dD True) = None"
       "Component lib (StaticDensity dB False) = None"
       "Component lib (StaticDensity dH False) = None" and
    w1: "w1 = replay (create_events cfg dD dB dH) (start fs)"
    by (auto simp: w0)
  let ?cs0 = "static_components dD dB dH :: ('a, 'c) component list"
  have f1: "components w1 = ?cs0" "potential w1 = None" "params w1 = iniSCM cfg"
    by (simp_all add: w1 components_replay potential_replay params_replay create_events_fields)
  from bootstrap_Ok [OF s2] obtain p0 where
    p0: "PotentialSolver lib (iniSCM cfg) [dD, dB, dH] = Some p0" and
    a2: "list_all (accepted lib) (bootstrap_events ?cs0 p0)" and
    w2: "w2 = replay (bootstrap_events ?cs0 p0) w1"
    by (auto simp: f1 static_components_def getDensity_def)
  have f2: "components w2 = ?cs0" "potential w2 = Some p0" "params w2 = iniSCM cfg"
    by (simp_all add: w2 f1 components_replay potential_replay params_replay
          bootstrap_events_fields)
  from construct_dfs_Ok [OF s3 [unfolded dens]] obtain fD ps fB fH where
    dfs: "dfs = (fD, fB, fH)" and
    f: "DistributionFunction lib (Some p0) (iniDFDisk cfg) = Inr fD"
       "Multipole lib (Some p0) 0 100 (1 / 1000) 1000 = Inr ps"
       "PseudoIsotropic lib ps dB = Inr fB" "PseudoIsotropic lib ps dH = Inr fH" and
    a3: "list_all (accepted lib) (df_events lib cfg ?cs0 p0 dB dH fD ps fB fH)" and
    w3: "w3 = replay (df_events lib cfg ?cs0 p0 dB dH fD ps fB fH) w2"
    by (auto simp: f2)
  have f3: "components w3 = ?cs0" "potential w3 = Some p0" "params w3 = iniSCM cfg"
    by (simp_all add: w3 f2 components_replay potential_replay params_replay df_events_fields)
  let ?cs1 = "df_components cfg fD fB fH :: ('a, 'c) component list"
  from replace_components_Ok [OF s4 [unfolded dfs]] have
    c4: "Component lib (DFBased fD True (iniSCMDisk cfg)) = None"
       "Component lib (DFBased fB False (iniSCMBulge cfg)) = None"
       "Component lib (DFBased fH False (iniSCMHalo cfg)) = None" and
    w4: "w4 = replay (replace_events cfg fD fB fH) w3"
    by simp_all
  have f4: "components w4 = ?cs1" "potential w4 = Some p0" "params w4 = iniSCM cfg"
    by (simp_all add: w4 f3 components_replay potential_replay params_replay
          replace_events_fields)
  from iterations_Ok [OF s5] obtain pots where
    len: "length pots = 6" and
    chain: "solved_chain lib (iniSCM cfg) ?cs1 (Some p0) pots" and
    a5: "list_all (accepted lib) (loop_events lib ?cs1 (zip [0..<6] pots))" and
    w5: "w5 = replay (loop_events lib ?cs1 (zip [0..<6] pots)) w4"
    by (auto simp: f4)
  have f5: "components w5 = ?cs1" "potential w5 = Some (last pots)"
    using last_zip_six [OF len]
    by (simp_all add: w5 f4 components_replay potential_replay loop_events_fields)
  from disk_profiles_Ok [OF s6] obtain Rdisk Hdisk where
    r: "float_item lib (iniPotenDisk cfg) ''scaleradius'' = Inr Rdisk" and
    h: "float_item lib (iniPotenDisk cfg) ''scaleheight'' = Inr Hdisk" and
    a6: "list_all (accepted lib) (profile_events (last pots) fD Rdisk)" and
    w6: "w6 = replay (profile_events (last pots) fD Rdisk) w5"
    by (auto simp: f5 dfs)
  have f6: "components w6 = ?cs1" "potential w6 = Some (last pots)"
    by (simp_all add: w6 f5 components_replay potential_replay profile_events_fields)
  from export_nbody_Ok [OF s7 [unfolded dfs] f6(2)] have
    a7: "list_all (accepted lib) (nbody_events lib ?cs1 (last pots) fD fB fH)" and
    w: "w = replay (nbody_events lib ?cs1 (last pots) fD fB fH) w6"
    by (simp_all add: f6)
  have "w = replay (script_events lib cfg dD dB dH p0 fD ps fB fH pots Rdisk) (start fs)"
    by (simp only: w w6 w5 w4 w3 w2 w1 script_events_def replay_append)
  moreover have "list_all (accepted lib)
      (script_events lib cfg dD dB dH p0 fD ps fB fH pots Rdisk)"
    using a2 a3 a5 a6 a7 by (simp add: script_events_def create_events_def replace_events_def)
  then have "obtained lib ini cfg dD dB dH p0 fD ps fB fH pots Rdisk"
    unfolding obtained_def using ini d p0 f len chain r h c1 c4 by simp
  ultimately show ?thesis by blast
qed

lemma three_components:
  "length (static_components dD dB dH) = 3" "length (df_components cfg fD fB fH) = 3"
  by (simp_all add: static_components_def df_components_def)

lemmas events_fields =
  components_replay potential_replay params_replay
  create_events_fields bootstrap_events_fields df_events_fields replace_events_fields
  loop_events_fields profile_events_fields

lemma run_succeeds:
  assumes ob: "obtained lib ini cfg dD dB dH p0 fD ps fB fH pots Rdisk"
  shows "run lib ini fs =
           Ok () (replay (script_events lib cfg dD dB dH p0 fD ps fB fH pots Rdisk) (start fs))"
proof -
  let ?cs0 = "static_components dD dB dH :: ('a, 'c) component list"
  let ?cs1 = "df_components cfg fD fB fH :: ('a, 'c) component list"
  let ?w1 = "replay (create_events cfg dD dB dH) (start fs)"
  let ?w2 = "replay (bootstrap_events ?cs0 p0) ?w1"
  let ?w3 = "replay (df_events lib cfg ?cs0 p0 dB dH fD ps fB fH) ?w2"
  let ?w4 = "replay (replace_events cfg fD fB fH) ?w3"
  let ?w5 = "replay (loop_events lib ?cs1 (zip [0..<6] pots)) ?w4"
  let ?w6 = "replay (profile_events (last pots) fD Rdisk) ?w5"
  let ?w7 = "replay (nbody_events lib ?cs1 (last pots) fD fB fH) ?w6"
  note facts = ob [unfolded obtained_def]
  have len: "length pots = 6"
    using facts by simp
  from facts have "list_all (accepted lib)
      (script_events lib cfg dD dB dH p0 fD ps fB fH pots Rdisk)"
    by simp
  then have acc: "list_all (accepted lib) (bootstrap_events ?cs0 p0)"
    "list_all (accepted lib) (df_events lib cfg ?cs0 p0 dB dH fD ps fB fH)"
    "list_all (accepted lib) (loop_events lib ?cs1 (zip [0..<6] pots))"
    "list_all (accepted lib) (profile_events (last pots) fD Rdisk)"
    "list_all (accepted lib) (nbody_events lib ?cs1 (last pots) fD fB fH)"
    by (simp_all add: script_events_def)
  note last = last_zip_six [OF len]
  have s0: "read_config ini (start fs) = Ok cfg (start fs)"
    using facts by (simp add: read_config_Ok_iff)
  have s1: "create_model lib cfg (start fs) = Ok (dD, dB, dH) ?w1"
    using facts by (simp add: create_model_Ok_iff)
  have f1: "components ?w1 = ?cs0" "potential ?w1 = None" "params ?w1 = iniSCM cfg"
    by (simp_all add: events_fields)
  have s2: "bootstrap lib ?w1 = Ok () ?w2"
    using facts acc(1)
    by (simp add: bootstrap_Ok_iff f1 static_components_def getDensity_def)
  have f2: "components ?w2 = ?cs0" "potential ?w2 = Some p0" "params ?w2 = iniSCM cfg"
    by (simp_all add: events_fields)
  have s3: "construct_dfs lib cfg (dD, dB, dH) ?w2 = Ok (fD, fB, fH) ?w3"
    using facts acc(2) by (simp add: construct_dfs_Ok_iff f2 three_components)
  have f3: "components ?w3 = ?cs0" "potential ?w3 = Some p0" "params ?w3 = iniSCM cfg"
    by (simp_all add: events_fields)
  have s4: "replace_components lib cfg (fD, fB, fH) ?w3 = Ok () ?w4"
    using facts by (simp add: replace_components_Ok_iff f3 three_components)
  have f4: "components ?w4 = ?cs1" "potential ?w4 = Some p0" "params ?w4 = iniSCM cfg"
    by (simp_all add: events_fields)
  have s5: "iterations lib [0..<6] ?w4 = Ok () ?w5"
    using facts acc(3) iterations_succeeds [of pots "[0..<6]" ?w4 lib]
    by (simp add: f4 three_components)
  have f5: "components ?w5 = ?cs1" "potential ?w5 = Some (last pots)"
    using last by (simp_all add: events_fields)
  have s6: "disk_profiles lib cfg fD ?w5 = Ok () ?w6"
    using facts acc(4) by (auto simp: disk_profiles_Ok_iff f5)
  have f6: "components ?w6 = ?cs1" "potential ?w6 = Some (last pots)"
    using last by (simp_all add: events_fields)
  have s7: "export_nbody lib (fD, fB, fH) ?w6 = Ok () ?w7"
    using acc(5) by (simp add: export_nbody_Ok_iff [OF f6(2)] f6 three_components)
  have "run lib ini fs = Ok () ?w7"
    by (simp add: run_def main_def andThen_def s0 s1 s2 s3 s4 s5 s6 s7)
  then show ?thesis
    by (simp only: script_events_def replay_append)
qed

lemma str_digit: "n < 10 \<Longrightarrow> str n = [digit n]"
  by (simp add: str.simps)

lemma upt_6: "[0..<6] = [0, 1, 2, 3, 4, 5]"
  by (simp add: upt_rec)

lemma six_elements:
  "length xs = 6 \<Longrightarrow> \<exists>a b c d e f. xs = [a, b, c, d, e, f]"
  by (auto simp: numeral_eq_Suc length_Suc_conv)

lemma pick_append: "pick f (xs @ ys) = pick f xs @ pick f ys"
  by (induction xs) (simp_all split: option.splits)

lemma final_run:
  assumes "succeeded (run lib ini fs)"
  shows "\<exists>cfg dD dB dH p0 fD ps fB fH p1 p2 p3 p4 p5 p6 Rdisk.
           obtained lib ini cfg dD dB dH p0 fD ps fB fH [p1, p2, p3, p4, p5, p6] Rdisk \<and>
           final (run lib ini fs) =
             replay (script_events lib cfg dD dB dH p0 fD ps fB fH [p1, p2, p3, p4, p5, p6] Rdisk)
               (start fs)"
proof -
  from assms obtain u w where ok: "run lib ini fs = Ok u w"
    by (cases "run lib ini fs") simp_all
  from run_Ok [OF ok] obtain cfg dD dB dH p0 fD ps fB fH pots Rdisk where
    ob: "obtained lib ini cfg dD dB dH p0 fD ps fB fH pots Rdisk" and
    w: "w = replay (script_events lib cfg dD dB dH p0 fD ps fB fH pots Rdisk) (start fs)"
    by blast
  from ob have "length pots = 6"
    by (simp add: obtained_def)
  from six_elements [OF this] obtain p1 p2 p3 p4 p5 p6 where "pots = [p1, p2, p3, p4, p5, p6]"
    by blast
  moreover from ok have "final (run lib ini fs) = w"
    by simp
  ultimately show ?thesis
    using ob w by blast
qed

lemmas segments_unfold =
  create_events_def bootstrap_events_def df_events_def replace_events_def
  profile_events_def nbody_events_def printout_events_def static_components_def
  df_components_def

lemma trace_start: "trace (replay es (start fs)) = es"
  by (simp add: trace_replay start_def)

lemma pick_loop:
  "pick iterate_call (loop_events lib cs ips) = replicate (length ips) cs"
  "pick iterate_return (loop_events lib cs ips) = map (\<lambda>ip. Some (snd ip)) ips"
  "pick step_of (loop_events lib cs ips)
     = concat (replicate (length ips) [IterateCalled, IterateReturned])"
  "pick construction (loop_events lib cs ips) = []"
  "pick appended (loop_events lib cs ips) = []"
  "pick assigned (loop_events lib cs ips) = []"
  "pick printout_call (loop_events lib cs ips) = map fst ips"
  "pick galaxy_model (loop_events lib cs ips) = []"
  by (induction ips) (auto simp: pick_append printout_events_def)

lemma write_error_lib0:
  "write_error lib0 name c = (if name = [] then Some (IOError name) else None)"
  by (simp add: lib0_def)

lemma obtained_lib0:
  "obtained lib0 ini0
     \<lparr>iniPotenHalo = [(''type'', ''Spheroid'')],
      iniPotenBulge = [(''type'', ''Sersic''), (''mass'', ''1'')],
      iniPotenDisk = [(''type'', ''Disk''), (''scaleradius'', ''3''), (''scaleheight'', ''3'')],
      iniDFDisk = [(''type'', ''QuasiIsothermal'')],
      iniSCMHalo = [], iniSCMBulge = [], iniSCMDisk = [], iniSCM = []\<rparr>
     3 2 1 6 7 9 11 10 [28, 28, 28, 28, 28, 28] 3"
proof -
  let ?cfg = "\<lparr>iniPotenHalo = [(''type'', ''Spheroid'')],
      iniPotenBulge = [(''type'', ''Sersic''), (''mass'', ''1'')],
      iniPotenDisk = [(''type'', ''Disk''), (''scaleradius'', ''3''), (''scaleheight'', ''3'')],
      iniDFDisk = [(''type'', ''QuasiIsothermal'')],
      iniSCMHalo = [], iniSCMBulge = [], iniSCMDisk = [], iniSCM = []\<rparr>"
  have "list_all (accepted lib0)
      (script_events lib0 ?cfg 3 2 1 6 7 9 11 10 [28, 28, 28, 28, 28, 28] 3)"
    unfolding script_events_def upt_6 zip_Cons_Cons zip_Nil loop_events.simps list_all_append
    by (simp add: segments_unfold write_error_lib0)
  then show ?thesis
    by (simp add: obtained_def lib0_def ini0_def items_def float_item_def df_components_def
          getDensity_def)
qed

lemma run_lib0_succeeds: "succeeded (run lib0 ini0 no_files)"
  by (simp add: run_succeeds [OF obtained_lib0])

section \<open>What \<open>writeRotationCurve\<close> leaves in the file\<close>

lemma writeRotationCurve_unwritable:
  "write_error lib filename (PotentialCoefs p) = Some e \<Longrightarrow>
     writeRotationCurve lib filename (Some p) w = Raised e w"
  by (simp add: writeRotationCurve_def andThen_def write_file_def)

lemma writeRotationCurve_lib0:
  "writeRotationCurve lib0 ''rotcurve_init'' (Some 0) (start no_files) =
     Ok () (replay [Write ''rotcurve_init'' (PotentialCoefs 0),
                    Write ''rotcurve_init'' (RotationCurve 0)] (start no_files))"
  "\<not> succeeded (writeRotationCurve lib0 [] (Some 0) (start no_files))"
  by (simp_all add: writeRotationCurve_Ok writeRotationCurve_unwritable lib0_def)

text \<open>
  C6, as stated: after \<^verbatim>\<open>writeRotationCurve(filename, potential)\<close> the file named
  \<open>filename\<close> holds the serialised potential. It does not: the call
  \<^verbatim>\<open>writeRotationCurve("rotcurve_init", potential)\<close>, started with no file at all,
  returns, with another content in \<^verbatim>\<open>rotcurve_init\<close>.
\<close>

theorem writeRotationCurve_potential_counterexample:
  "succeeded (writeRotationCurve lib0 ''rotcurve_init'' (Some 0) (start no_files)) \<and>
   files (final (writeRotationCurve lib0 ''rotcurve_init'' (Some 0) (start no_files)))
     ''rotcurve_init'' \<noteq> Some (PotentialCoefs 0)"
  by (simp add: writeRotationCurve_lib0 logged_def)

text \<open>
  C6, amended: for every call \<^verbatim>\<open>writeRotationCurve(filename, potential)\<close> that returns,
  what the file named \<open>filename\<close> holds when the call returns is the rotation-curve table
  (radius and circular velocity) computed from that potential. (A call raises when the
  potential is \<^verbatim>\<open>None\<close> or when the file cannot be written.)
\<close>

theorem writeRotationCurve_leaves_table:
  assumes "succeeded (writeRotationCurve lib filename pot w)"
  shows "\<exists>p. pot = Some p \<and>
           files (final (writeRotationCurve lib filename pot w)) filename
             = Some (RotationCurve p)"
proof -
  from assms obtain u w' where ok: "writeRotationCurve lib filename pot w = Ok u w'"
    by (cases "writeRotationCurve lib filename pot w") simp_all
  then obtain p where "pot = Some p"
    and "w' = replay [Write filename (PotentialCoefs p), Write filename (RotationCurve p)] w"
    by (auto simp: writeRotationCurve_Ok)
  with ok show ?thesis
    by (simp add: logged_def)
qed

theorem writeRotationCurve_leaves_table_witness:
  "succeeded (writeRotationCurve lib0 ''rotcurve_init'' (Some 0) (start no_files)) \<and>
   (\<exists>p. Some 0 = Some p \<and>
        files (final (writeRotationCurve lib0 ''rotcurve_init'' (Some 0) (start no_files)))
          ''rotcurve_init'' = Some (RotationCurve p))"
proof -
  have h: "succeeded (writeRotationCurve lib0 ''rotcurve_init'' (Some 0) (start no_files))"
    by (simp add: writeRotationCurve_lib0)
  from h writeRotationCurve_leaves_table [OF h] show ?thesis
    by (rule conjI)
qed

section \<open>A failing solver\<close>

lemma iterate_cases:
  "iterate lib m = Raised SolveError m \<or>
   (\<exists>p. iterate lib m = Ok () (m\<lparr>potential := Some p\<rparr>))"
proof (cases "PotentialSolver lib (params m) (map (getDensity lib (potential m)) (components m))")
  case None
  then show ?thesis
    by (simp add: iterate_def)
next
  case (Some p)
  then have "iterate lib m = Ok () (m\<lparr>potential := Some p\<rparr>)"
    by (simp add: iterate_def)
  then show ?thesis
    by blast
qed

text \<open>
  C7: when the potential solver cannot produce a potential from the components'
  contributions, \<^verbatim>\<open>iterate()\<close> raises \<open>SolveError\<close> and leaves the model as it was, the
  potential published before included.
\<close>

theorem iterate_all_or_nothing:
  "PotentialSolver lib (params m) (map (getDensity lib (potential m)) (components m)) = None
   \<Longrightarrow> iterate lib m = Raised SolveError m
     \<and> potential (final (iterate lib m)) = potential m
     \<and> components (final (iterate lib m)) = components m"
  by (simp add: iterate_def)

theorem iterate_all_or_nothing_witness:
  "PotentialSolver lib0 (params published)
     (map (getDensity lib0 (potential published)) (components published)) = None
   \<and> iterate lib0 published = Raised SolveError published
   \<and> potential (final (iterate lib0 published)) = potential published
   \<and> components (final (iterate lib0 published)) = components published
   \<and> potential published = Some 5"
proof -
  have h: "PotentialSolver lib0 (params published)
     (map (getDensity lib0 (potential published)) (components published)) = None"
    by (simp add: lib0_def published_def start_def)
  have "potential published = Some 5"
    by (simp add: published_def)
  with h iterate_all_or_nothing [OF h] show ?thesis by simp
qed

lemma pick_loop_more:
  "pick potential_event (loop_events lib cs ips) = map (\<lambda>ip. ReturnIterate (Some (snd ip))) ips"
  by (induction ips) (auto simp: pick_append printout_events_def)

lemma comps_after_Cons: "comps_after (e # es) cs = comps_after es (comps_after [e] cs)"
  using comps_after_append [of "[e]" es cs] by simp

lemma changes_append:
  "changes cs (xs @ ys) = changes cs xs @ changes (comps_after xs cs) ys"
proof (induction xs arbitrary: cs)
  case Nil
  then show ?case by simp
next
  case (Cons e xs)
  show ?case
    by (simp add: Cons.IH comps_after_Cons [of e xs])
qed

lemma changes_printout: "changes cs (printout_events lib n cs' p) = []"
  by (simp add: printout_events_def)

lemma changes_loop: "changes cs (loop_events lib cs' ips) = []"
  by (induction ips) (auto simp: changes_append changes_printout printout_passive)

lemma files_logged:
  "files (logged e w) name =
     (case written name e of None \<Rightarrow> files w name | Some c \<Rightarrow> Some c)"
  by (cases e) (simp_all add: logged_def)

lemma files_replay:
  "files (replay es w) name =
     (if pick (written name) es = [] then files w name
      else Some (last (pick (written name) es)))"
  by (induction es arbitrary: w) (auto simp: files_logged split: option.splits)

lemma digits:
  "str 0 = ''0''" "str 1 = ''1''" "str 2 = ''2''" "str 3 = ''3''" "str 4 = ''4''"
  "str 5 = ''5''" "str (Suc 0) = ''1''"
  by (simp_all add: str_digit digit_def)

lemma replicate_6: "replicate 6 x = [x, x, x, x, x, x]"
  by (simp add: numeral_eq_Suc)

lemmas loop_unroll = upt_6 zip_Cons_Cons zip_Nil loop_events.simps

section \<open>The iteration schedule\<close>

text \<open>
  C1: in a run that completes, \<^verbatim>\<open>iterate()\<close> is entered exactly seven times and returns
  each time: once while all three components are static densities, then six times while
  all three are DF-based. This holds for every library, whatever potentials its solver
  returns: nothing the iterations compute decides how many there are.
\<close>

theorem fixed_iteration_schedule:
  assumes "succeeded (run lib ini fs)"
  shows "map (list_all is_static) (pick iterate_call (trace (final (run lib ini fs))))
           = [True, False, False, False, False, False, False]
       \<and> map (list_all is_df_based) (pick iterate_call (trace (final (run lib ini fs))))
           = [False, True, True, True, True, True, True]
       \<and> map length (pick iterate_call (trace (final (run lib ini fs))))
           = [3, 3, 3, 3, 3, 3, 3]
       \<and> length (pick iterate_return (trace (final (run lib ini fs)))) = 7"
proof -
  from final_run [OF assms] obtain cfg dD dB dH p0 fD ps fB fH p1 p2 p3 p4 p5 p6 Rdisk where
    fin: "final (run lib ini fs) =
       replay (script_events lib cfg dD dB dH p0 fD ps fB fH [p1, p2, p3, p4, p5, p6] Rdisk)
         (start fs)"
    by blast
  show ?thesis
    unfolding fin trace_start script_events_def pick_append pick_loop
    by (simp add: segments_unfold upt_6)
qed

theorem fixed_iteration_schedule_witness:
  "succeeded (run lib0 ini0 no_files)
   \<and> (map (list_all is_static) (pick iterate_call (trace (final (run lib0 ini0 no_files))))
           = [True, False, False, False, False, False, False]
       \<and> map (list_all is_df_based) (pick iterate_call (trace (final (run lib0 ini0 no_files))))
           = [False, True, True, True, True, True, True]
       \<and> map length (pick iterate_call (trace (final (run lib0 ini0 no_files))))
           = [3, 3, 3, 3, 3, 3, 3]
       \<and> length (pick iterate_return (trace (final (run lib0 ini0 no_files)))) = 7)"
  using run_lib0_succeeds fixed_iteration_schedule [OF run_lib0_succeeds] by (rule conjI)

section \<open>Replacement happens between iterations\<close>

text \<open>
  C3: in a run that completes, the entries into \<^verbatim>\<open>iterate()\<close>, its returns and the
  assignments to component slots occur in this order: the bootstrap iteration is entered
  and returns, the slots 0, 1 and 2 are assigned, and then each of the six iterations is
  entered and returns. So every replacement lies after the return of the bootstrap
  iteration and before the next entry, and none lies between an entry and its return.
\<close>

theorem replacement_between_iterations:
  assumes "succeeded (run lib ini fs)"
  shows "pick step_of (trace (final (run lib ini fs))) =
           [IterateCalled, IterateReturned,
            SlotAssigned 0, SlotAssigned 1, SlotAssigned 2,
            IterateCalled, IterateReturned, IterateCalled, IterateReturned,
            IterateCalled, IterateReturned, IterateCalled, IterateReturned,
            IterateCalled, IterateReturned, IterateCalled, IterateReturned]"
proof -
  from final_run [OF assms] obtain cfg dD dB dH p0 fD ps fB fH p1 p2 p3 p4 p5 p6 Rdisk where
    fin: "final (run lib ini fs) =
       replay (script_events lib cfg dD dB dH p0 fD ps fB fH [p1, p2, p3, p4, p5, p6] Rdisk)
         (start fs)"
    by blast
  show ?thesis
    unfolding fin trace_start script_events_def pick_append pick_loop
    by (simp add: segments_unfold upt_6)
qed

theorem replacement_between_iterations_witness:
  "succeeded (run lib0 ini0 no_files)
   \<and> pick step_of (trace (final (run lib0 ini0 no_files))) =
           [IterateCalled, IterateReturned,
            SlotAssigned 0, SlotAssigned 1, SlotAssigned 2,
            IterateCalled, IterateReturned, IterateCalled, IterateReturned,
            IterateCalled, IterateReturned, IterateCalled, IterateReturned,
            IterateCalled, IterateReturned, IterateCalled, IterateReturned]"
  using run_lib0_succeeds replacement_between_iterations [OF run_lib0_succeeds] by (rule conjI)

section \<open>The spheroidal distribution functions\<close>

text \<open>
  C2: in a run that completes, the bulge and the halo each receive a pseudo-isotropic
  DF constructed from the density profile of that component (the density its static
  component was created with) and one spherical potential \<open>ps\<close>, the same for both.
  \<open>ps\<close> is the multipole potential with \<^verbatim>\<open>lmax=0\<close> built from the model's potential
  \<open>p0\<close>, the one the bootstrap iteration has just published; the disk DF is constructed
  in \<open>p0\<close> itself. All four constructions lie between the return of the bootstrap
  iteration and the return of the next one.
\<close>

theorem spheroidal_dfs_from_monopole:
  assumes "succeeded (run lib ini fs)"
  shows "\<exists>cfg dD dB dH p0 fD ps fB fH p1 p2 p3 p4 p5 p6 Rdisk.
     obtained lib ini cfg dD dB dH p0 fD ps fB fH [p1, p2, p3, p4, p5, p6] Rdisk \<and>
     pick appended (run_trace lib ini fs) =
       [StaticDensity dD True, StaticDensity dB False, StaticDensity dH False] \<and>
     pick potential_event (run_trace lib ini fs) =
       [ReturnIterate (Some p0),
        NewDistributionFunction (Some p0) (iniDFDisk cfg) fD,
        NewMultipole (Some p0) 0 100 (1 / 1000) 1000 ps,
        NewPseudoIsotropic ps dB fB,
        NewPseudoIsotropic ps dH fH,
        ReturnIterate (Some p1), ReturnIterate (Some p2), ReturnIterate (Some p3),
        ReturnIterate (Some p4), ReturnIterate (Some p5), ReturnIterate (Some p6)] \<and>
     Multipole lib (Some p0) 0 100 (1 / 1000) 1000 = Inr ps \<and>
     PseudoIsotropic lib ps dB = Inr fB \<and>
     PseudoIsotropic lib ps dH = Inr fH \<and>
     DistributionFunction lib (Some p0) (iniDFDisk cfg) = Inr fD"
proof -
  from final_run [OF assms] obtain cfg dD dB dH p0 fD ps fB fH p1 p2 p3 p4 p5 p6 Rdisk where
    ob: "obtained lib ini cfg dD dB dH p0 fD ps fB fH [p1, p2, p3, p4, p5, p6] Rdisk" and
    fin: "final (run lib ini fs) =
       replay (script_events lib cfg dD dB dH p0 fD ps fB fH [p1, p2, p3, p4, p5, p6] Rdisk)
         (start fs)"
    by blast
  have a: "pick appended (run_trace lib ini fs) =
       [StaticDensity dD True, StaticDensity dB False, StaticDensity dH False]"
    unfolding fin trace_start script_events_def pick_append pick_loop
    by (simp add: segments_unfold)
  have b: "pick potential_event (run_trace lib ini fs) =
       [ReturnIterate (Some p0),
        NewDistributionFunction (Some p0) (iniDFDisk cfg) fD,
        NewMultipole (Some p0) 0 100 (1 / 1000) 1000 ps,
        NewPseudoIsotropic ps dB fB,
        NewPseudoIsotropic ps dH fH,
        ReturnIterate (Some p1), ReturnIterate (Some p2), ReturnIterate (Some p3),
        ReturnIterate (Some p4), ReturnIterate (Some p5), ReturnIterate (Some p6)]"
    unfolding fin trace_start script_events_def pick_append pick_loop_more
    by (simp add: segments_unfold upt_6)
  from ob have c: "Multipole lib (Some p0) 0 100 (1 / 1000) 1000 = Inr ps"
    "PseudoIsotropic lib ps dB = Inr fB" "PseudoIsotropic lib ps dH = Inr fH"
    "DistributionFunction lib (Some p0) (iniDFDisk cfg) = Inr fD"
    by (simp_all add: obtained_def)
  from ob a b c show ?thesis
    by blast
qed

theorem spheroidal_dfs_from_monopole_witness:
  "succeeded (run lib0 ini0 no_files) \<and>
   (\<exists>cfg dD dB dH p0 fD ps fB fH p1 p2 p3 p4 p5 p6 Rdisk.
     obtained lib0 ini0 cfg dD dB dH p0 fD ps fB fH [p1, p2, p3, p4, p5, p6] Rdisk \<and>
     pick appended (run_trace lib0 ini0 no_files) =
       [StaticDensity dD True, StaticDensity dB False, StaticDensity dH False] \<and>
     pick potential_event (run_trace lib0 ini0 no_files) =
       [ReturnIterate (Some p0),
        NewDistributionFunction (Some p0) (iniDFDisk cfg) fD,
        NewMultipole (Some p0) 0 100 (1 / 1000) 1000 ps,
        NewPseudoIsotropic ps dB fB,
        NewPseudoIsotropic ps dH fH,
        ReturnIterate (Some p1), ReturnIterate (Some p2), ReturnIterate (Some p3),
        ReturnIterate (Some p4), ReturnIterate (Some p5), ReturnIterate (Some p6)] \<and>
     Multipole lib0 (Some p0) 0 100 (1 / 1000) 1000 = Inr ps \<and>
     PseudoIsotropic lib0 ps dB = Inr fB \<and>
     PseudoIsotropic lib0 ps dH = Inr fH \<and>
     DistributionFunction lib0 (Some p0) (iniDFDisk cfg) = Inr fD)"
  using run_lib0_succeeds spheroidal_dfs_from_monopole [OF run_lib0_succeeds] by (rule conjI)

section \<open>The component slots\<close>

text \<open>
  C4: in a run that completes, the component list starts empty and changes six times:
  the static disk, bulge and halo are appended in this order, then slot 0, slot 1 and
  slot 2 are each assigned once, a DF-based component with the disklike flag of the
  static one it replaces (true for the disk, false for the bulge and the halo) and the DF
  of the same role. From the third append on the list has three slots; its length never
  decreases; the run ends with the three DF-based components.
\<close>

theorem component_slots_fixed:
  assumes "succeeded (run lib ini fs)"
  shows "\<exists>cfg dD dB dH p0 fD ps fB fH p1 p2 p3 p4 p5 p6 Rdisk.
     obtained lib ini cfg dD dB dH p0 fD ps fB fH [p1, p2, p3, p4, p5, p6] Rdisk \<and>
     pick appended (run_trace lib ini fs) =
       [StaticDensity dD True, StaticDensity dB False, StaticDensity dH False] \<and>
     pick assigned (run_trace lib ini fs) =
       [(0, DFBased fD True (iniSCMDisk cfg)), (1, DFBased fB False (iniSCMBulge cfg)),
        (2, DFBased fH False (iniSCMHalo cfg))] \<and>
     changes [] (run_trace lib ini fs) =
       [[StaticDensity dD True],
        [StaticDensity dD True, StaticDensity dB False],
        [StaticDensity dD True, StaticDensity dB False, StaticDensity dH False],
        [DFBased fD True (iniSCMDisk cfg), StaticDensity dB False, StaticDensity dH False],
        [DFBased fD True (iniSCMDisk cfg), DFBased fB False (iniSCMBulge cfg),
         StaticDensity dH False],
        [DFBased fD True (iniSCMDisk cfg), DFBased fB False (iniSCMBulge cfg),
         DFBased fH False (iniSCMHalo cfg)]] \<and>
     components (final (run lib ini fs)) =
       [DFBased fD True (iniSCMDisk cfg), DFBased fB False (iniSCMBulge cfg),
        DFBased fH False (iniSCMHalo cfg)]"
proof -
  from final_run [OF assms] obtain cfg dD dB dH p0 fD ps fB fH p1 p2 p3 p4 p5 p6 Rdisk where
    ob: "obtained lib ini cfg dD dB dH p0 fD ps fB fH [p1, p2, p3, p4, p5, p6] Rdisk" and
    fin: "final (run lib ini fs) =
       replay (script_events lib cfg dD dB dH p0 fD ps fB fH [p1, p2, p3, p4, p5, p6] Rdisk)
         (start fs)"
    by blast
  have a: "pick appended (run_trace lib ini fs) =
       [StaticDensity dD True, StaticDensity dB False, StaticDensity dH False]"
    unfolding fin trace_start script_events_def pick_append pick_loop
    by (simp add: segments_unfold)
  have b: "pick assigned (run_trace lib ini fs) =
       [(0, DFBased fD True (iniSCMDisk cfg)), (1, DFBased fB False (iniSCMBulge cfg)),
        (2, DFBased fH False (iniSCMHalo cfg))]"
    unfolding fin trace_start script_events_def pick_append pick_loop
    by (simp add: segments_unfold)
  have c: "changes [] (run_trace lib ini fs) =
       [[StaticDensity dD True],
        [StaticDensity dD True, StaticDensity dB False],
        [StaticDensity dD True, StaticDensity dB False, StaticDensity dH False],
        [DFBased fD True (iniSCMDisk cfg), StaticDensity dB False, StaticDensity dH False],
        [DFBased fD True (iniSCMDisk cfg), DFBased fB False (iniSCMBulge cfg),
         StaticDensity dH False],
        [DFBased fD True (iniSCMDisk cfg), DFBased fB False (iniSCMBulge cfg),
         DFBased fH False (iniSCMHalo cfg)]]"
    unfolding fin trace_start script_events_def changes_append changes_loop comps_after_append
    by (simp add: segments_unfold loop_events_fields)
  have d: "components (final (run lib ini fs)) =
       [DFBased fD True (iniSCMDisk cfg), DFBased fB False (iniSCMBulge cfg),
        DFBased fH False (iniSCMHalo cfg)]"
    unfolding fin script_events_def components_replay comps_after_append
    by (simp add: segments_unfold loop_events_fields start_def)
  from ob a b c d show ?thesis
    by blast
qed

theorem component_slots_fixed_witness:
  "succeeded (run lib0 ini0 no_files) \<and>
   (\<exists>cfg dD dB dH p0 fD ps fB fH p1 p2 p3 p4 p5 p6 Rdisk.
     obtained lib0 ini0 cfg dD dB dH p0 fD ps fB fH [p1, p2, p3, p4, p5, p6] Rdisk \<and>
     pick appended (run_trace lib0 ini0 no_files) =
       [StaticDensity dD True, StaticDensity dB False, StaticDensity dH False] \<and>
     pick assigned (run_trace lib0 ini0 no_files) =
       [(0, DFBased fD True (iniSCMDisk cfg)), (1, DFBased fB False (iniSCMBulge cfg)),
        (2, DFBased fH False (iniSCMHalo cfg))] \<and>
     changes [] (run_trace lib0 ini0 no_files) =
       [[StaticDensity dD True],
        [StaticDensity dD True, StaticDensity dB False],
        [StaticDensity dD True, StaticDensity dB False, StaticDensity dH False],
        [DFBased fD True (iniSCMDisk cfg), StaticDensity dB False, StaticDensity dH False],
        [DFBased fD True (iniSCMDisk cfg), DFBased fB False (iniSCMBulge cfg),
         StaticDensity dH False],
        [DFBased fD True (iniSCMDisk cfg), DFBased fB False (iniSCMBulge cfg),
         DFBased fH False (iniSCMHalo cfg)]] \<and>
     components (final (run lib0 ini0 no_files)) =
       [DFBased fD True (iniSCMDisk cfg), DFBased fB False (iniSCMBulge cfg),
        DFBased fH False (iniSCMHalo cfg)])"
  using run_lib0_succeeds component_slots_fixed [OF run_lib0_succeeds] by (rule conjI)

section \<open>The printouts with iteration number 0\<close>

text \<open>
  C9: in a run that completes, \<^verbatim>\<open>printoutInfo\<close> is called with the iteration numbers
  0, 0, 1, 2, 3, 4, 5. Each of the files \<^verbatim>\<open>dens_disk_iter0\<close>, \<^verbatim>\<open>dens_bulge_iter0\<close> and
  \<^verbatim>\<open>dens_halo_iter0\<close> is written twice, first with the density of the static component,
  then with the density of the DF-based component in the potential \<open>p1\<close> of the first
  later iteration; \<^verbatim>\<open>rotcurve_iter0\<close> is written by two calls of
  \<^verbatim>\<open>writeRotationCurve\<close>, for \<open>p0\<close> and then for \<open>p1\<close>, each call writing the export and
  then the table. At the end the four files hold what the first later iteration wrote.
  (The density of a DF-based component is its DF integrated in the model's potential, as
  \<open>getDensity\<close> has it.)
\<close>

theorem printout_zero_twice:
  assumes "succeeded (run lib ini fs)"
  shows "\<exists>cfg dD dB dH p0 fD ps fB fH p1 p2 p3 p4 p5 p6 Rdisk.
     obtained lib ini cfg dD dB dH p0 fD ps fB fH [p1, p2, p3, p4, p5, p6] Rdisk \<and>
     pick printout_call (run_trace lib ini fs) = [0, 0, 1, 2, 3, 4, 5] \<and>
     pick (written ''dens_disk_iter0'') (run_trace lib ini fs) =
       [DensityCoefs dD, DensityCoefs (density_from_df lib fD True (iniSCMDisk cfg) (Some p1))] \<and>
     pick (written ''dens_bulge_iter0'') (run_trace lib ini fs) =
       [DensityCoefs dB, DensityCoefs (density_from_df lib fB False (iniSCMBulge cfg) (Some p1))] \<and>
     pick (written ''dens_halo_iter0'') (run_trace lib ini fs) =
       [DensityCoefs dH, DensityCoefs (density_from_df lib fH False (iniSCMHalo cfg) (Some p1))] \<and>
     pick (written ''rotcurve_iter0'') (run_trace lib ini fs) =
       [PotentialCoefs p0, RotationCurve p0, PotentialCoefs p1, RotationCurve p1] \<and>
     files (final (run lib ini fs)) ''dens_disk_iter0'' =
       Some (DensityCoefs (density_from_df lib fD True (iniSCMDisk cfg) (Some p1))) \<and>
     files (final (run lib ini fs)) ''dens_bulge_iter0'' =
       Some (DensityCoefs (density_from_df lib fB False (iniSCMBulge cfg) (Some p1))) \<and>
     files (final (run lib ini fs)) ''dens_halo_iter0'' =
       Some (DensityCoefs (density_from_df lib fH False (iniSCMHalo cfg) (Some p1))) \<and>
     files (final (run lib ini fs)) ''rotcurve_iter0'' = Some (RotationCurve p1)"
proof -
  from final_run [OF assms] obtain cfg dD dB dH p0 fD ps fB fH p1 p2 p3 p4 p5 p6 Rdisk where
    ob: "obtained lib ini cfg dD dB dH p0 fD ps fB fH [p1, p2, p3, p4, p5, p6] Rdisk" and
    fin: "final (run lib ini fs) =
       replay (script_events lib cfg dD dB dH p0 fD ps fB fH [p1, p2, p3, p4, p5, p6] Rdisk)
         (start fs)"
    by blast
  let ?es = "script_events lib cfg dD dB dH p0 fD ps fB fH [p1, p2, p3, p4, p5, p6] Rdisk"
  have a: "pick printout_call ?es = [0, 0, 1, 2, 3, 4, 5]"
    unfolding script_events_def pick_append pick_loop
    by (simp add: segments_unfold upt_6)
  have b: "pick (written ''dens_disk_iter0'') ?es =
       [DensityCoefs dD, DensityCoefs (density_from_df lib fD True (iniSCMDisk cfg) (Some p1))]"
    "pick (written ''dens_bulge_iter0'') ?es =
       [DensityCoefs dB, DensityCoefs (density_from_df lib fB False (iniSCMBulge cfg) (Some p1))]"
    "pick (written ''dens_halo_iter0'') ?es =
       [DensityCoefs dH, DensityCoefs (density_from_df lib fH False (iniSCMHalo cfg) (Some p1))]"
    "pick (written ''rotcurve_iter0'') ?es =
       [PotentialCoefs p0, RotationCurve p0, PotentialCoefs p1, RotationCurve p1]"
    unfolding script_events_def loop_unroll pick_append
    by (simp_all add: segments_unfold digits getDensity_def)
  have c: "files (final (run lib ini fs)) ''dens_disk_iter0'' =
       Some (DensityCoefs (density_from_df lib fD True (iniSCMDisk cfg) (Some p1)))"
     "files (final (run lib ini fs)) ''dens_bulge_iter0'' =
       Some (DensityCoefs (density_from_df lib fB False (iniSCMBulge cfg) (Some p1)))"
     "files (final (run lib ini fs)) ''dens_halo_iter0'' =
       Some (DensityCoefs (density_from_df lib fH False (iniSCMHalo cfg) (Some p1)))"
     "files (final (run lib ini fs)) ''rotcurve_iter0'' = Some (RotationCurve p1)"
    unfolding fin files_replay b by simp_all
  from ob a b c show ?thesis
    unfolding fin trace_start by blast
qed

theorem printout_zero_twice_witness:
  "succeeded (run lib0 ini0 no_files) \<and>
   (\<exists>cfg dD dB dH p0 fD ps fB fH p1 p2 p3 p4 p5 p6 Rdisk.
     obtained lib0 ini0 cfg dD dB dH p0 fD ps fB fH [p1, p2, p3, p4, p5, p6] Rdisk \<and>
     pick printout_call (run_trace lib0 ini0 no_files) = [0, 0, 1, 2, 3, 4, 5] \<and>
     pick (written ''dens_disk_iter0'') (run_trace lib0 ini0 no_files) =
       [DensityCoefs dD, DensityCoefs (density_from_df lib0 fD True (iniSCMDisk cfg) (Some p1))] \<and>
     pick (written ''dens_bulge_iter0'') (run_trace lib0 ini0 no_files) =
       [DensityCoefs dB, DensityCoefs (density_from_df lib0 fB False (iniSCMBulge cfg) (Some p1))] \<and>
     pick (written ''dens_halo_iter0'') (run_trace lib0 ini0 no_files) =
       [DensityCoefs dH, DensityCoefs (density_from_df lib0 fH False (iniSCMHalo cfg) (Some p1))] \<and>
     pick (written ''rotcurve_iter0'') (run_trace lib0 ini0 no_files) =
       [PotentialCoefs p0, RotationCurve p0, PotentialCoefs p1, RotationCurve p1] \<and>
     files (final (run lib0 ini0 no_files)) ''dens_disk_iter0'' =
       Some (DensityCoefs (density_from_df lib0 fD True (iniSCMDisk cfg) (Some p1))) \<and>
     files (final (run lib0 ini0 no_files)) ''dens_bulge_iter0'' =
       Some (DensityCoefs (density_from_df lib0 fB False (iniSCMBulge cfg) (Some p1))) \<and>
     files (final (run lib0 ini0 no_files)) ''dens_halo_iter0'' =
       Some (DensityCoefs (density_from_df lib0 fH False (iniSCMHalo cfg) (Some p1))) \<and>
     files (final (run lib0 ini0 no_files)) ''rotcurve_iter0'' = Some (RotationCurve p1))"
  using run_lib0_succeeds printout_zero_twice [OF run_lib0_succeeds] by (rule conjI)

section \<open>The distribution functions are constructed once\<close>

text \<open>
  C10: in a run that completes, the log holds exactly one construction of each DF: the
  disk DF in the potential \<open>p0\<close> of the bootstrap iteration, the bulge and halo DFs in
  the \<^verbatim>\<open>lmax=0\<close> multipole potential built from \<open>p0\<close>. Each of the six later iterations
  is entered with the same three components, holding these three DFs, while the
  potential goes through \<open>p1\<close>, ..., \<open>p6\<close>; the galaxy models, and the three sampled
  snapshots, are built from these DFs and the last potential \<open>p6\<close>.
\<close>

theorem dfs_constructed_once:
  assumes "succeeded (run lib ini fs)"
  shows "\<exists>cfg dD dB dH p0 fD ps fB fH p1 p2 p3 p4 p5 p6 Rdisk.
     obtained lib ini cfg dD dB dH p0 fD ps fB fH [p1, p2, p3, p4, p5, p6] Rdisk \<and>
     pick construction (run_trace lib ini fs) =
       [NewDistributionFunction (Some p0) (iniDFDisk cfg) fD,
        NewMultipole (Some p0) 0 100 (1 / 1000) 1000 ps,
        NewPseudoIsotropic ps dB fB,
        NewPseudoIsotropic ps dH fH] \<and>
     pick iterate_return (run_trace lib ini fs) =
       [Some p0, Some p1, Some p2, Some p3, Some p4, Some p5, Some p6] \<and>
     pick iterate_call (run_trace lib ini fs) =
       [StaticDensity dD True, StaticDensity dB False, StaticDensity dH False]
       # replicate 6 [DFBased fD True (iniSCMDisk cfg), DFBased fB False (iniSCMBulge cfg),
                      DFBased fH False (iniSCMHalo cfg)] \<and>
     pick galaxy_model (run_trace lib ini fs) =
       [(Some p6, fD), (Some p6, fD), (Some p6, fB), (Some p6, fH)] \<and>
     pick (written ''model_disk_final'') (run_trace lib ini fs) =
       [ModelSample (Some p6) fD 160000 ''text''] \<and>
     pick (written ''model_bulge_final'') (run_trace lib ini fs) =
       [ModelSample (Some p6) fB 40000 ''text''] \<and>
     pick (written ''model_halo_final'') (run_trace lib ini fs) =
       [ModelSample (Some p6) fH 800000 ''text'']"
proof -
  from final_run [OF assms] obtain cfg dD dB dH p0 fD ps fB fH p1 p2 p3 p4 p5 p6 Rdisk where
    ob: "obtained lib ini cfg dD dB dH p0 fD ps fB fH [p1, p2, p3, p4, p5, p6] Rdisk" and
    fin: "final (run lib ini fs) =
       replay (script_events lib cfg dD dB dH p0 fD ps fB fH [p1, p2, p3, p4, p5, p6] Rdisk)
         (start fs)"
    by blast
  have a: "pick construction (run_trace lib ini fs) =
       [NewDistributionFunction (Some p0) (iniDFDisk cfg) fD,
        NewMultipole (Some p0) 0 100 (1 / 1000) 1000 ps,
        NewPseudoIsotropic ps dB fB,
        NewPseudoIsotropic ps dH fH]"
    unfolding fin trace_start script_events_def pick_append pick_loop
    by (simp add: segments_unfold)
  have b: "pick iterate_return (run_trace lib ini fs) =
       [Some p0, Some p1, Some p2, Some p3, Some p4, Some p5, Some p6]"
    unfolding fin trace_start script_events_def pick_append pick_loop
    by (simp add: segments_unfold upt_6)
  have c: "pick iterate_call (run_trace lib ini fs) =
       [StaticDensity dD True, StaticDensity dB False, StaticDensity dH False]
       # replicate 6 [DFBased fD True (iniSCMDisk cfg), DFBased fB False (iniSCMBulge cfg),
                      DFBased fH False (iniSCMHalo cfg)]"
    unfolding fin trace_start script_events_def pick_append pick_loop
    by (simp add: segments_unfold upt_6 replicate_6)
  have d: "pick galaxy_model (run_trace lib ini fs) =
       [(Some p6, fD), (Some p6, fD), (Some p6, fB), (Some p6, fH)]"
    unfolding fin trace_start script_events_def pick_append pick_loop
    by (simp add: segments_unfold)
  have e: "pick (written ''model_disk_final'') (run_trace lib ini fs) =
       [ModelSample (Some p6) fD 160000 ''text'']"
     "pick (written ''model_bulge_final'') (run_trace lib ini fs) =
       [ModelSample (Some p6) fB 40000 ''text'']"
     "pick (written ''model_halo_final'') (run_trace lib ini fs) =
       [ModelSample (Some p6) fH 800000 ''text'']"
    unfolding fin trace_start script_events_def loop_unroll pick_append
    by (simp_all add: segments_unfold digits)
  from ob a b c d e show ?thesis
    by blast
qed

theorem dfs_constructed_once_witness:
  "succeeded (run lib0 ini0 no_files) \<and>
   (\<exists>cfg dD dB dH p0 fD ps fB fH p1 p2 p3 p4 p5 p6 Rdisk.
     obtained lib0 ini0 cfg dD dB dH p0 fD ps fB fH [p1, p2, p3, p4, p5, p6] Rdisk \<and>
     pick construction (run_trace lib0 ini0 no_files) =
       [NewDistributionFunction (Some p0) (iniDFDisk cfg) fD,
        NewMultipole (Some p0) 0 100 (1 / 1000) 1000 ps,
        NewPseudoIsotropic ps dB fB,
        NewPseudoIsotropic ps dH fH] \<and>
     pick iterate_return (run_trace lib0 ini0 no_files) =
       [Some p0, Some p1, Some p2, Some p3, Some p4, Some p5, Some p6] \<and>
     pick iterate_call (run_trace lib0 ini0 no_files) =
       [StaticDensity dD True, StaticDensity dB False, StaticDensity dH False]
       # replicate 6 [DFBased fD True (iniSCMDisk cfg), DFBased fB False (iniSCMBulge cfg),
                      DFBased fH False (iniSCMHalo cfg)] \<and>
     pick galaxy_model (run_trace lib0 ini0 no_files) =
       [(Some p6, fD), (Some p6, fD), (Some p6, fB), (Some p6, fH)] \<and>
     pick (written ''model_disk_final'') (run_trace lib0 ini0 no_files) =
       [ModelSample (Some p6) fD 160000 ''text''] \<and>
     pick (written ''model_bulge_final'') (run_trace lib0 ini0 no_files) =
       [ModelSample (Some p6) fB 40000 ''text''] \<and>
     pick (written ''model_halo_final'') (run_trace lib0 ini0 no_files) =
       [ModelSample (Some p6) fH 800000 ''text''])"
  using run_lib0_succeeds dfs_constructed_once [OF run_lib0_succeeds] by (rule conjI)

end
